theory Spec2Isabelle
  imports Main "HOL-Library.AList"
begin

section \<open>The meteoblue dataset client (mbdataset/client.py)\<close>

text \<open>
  The client talks to a remote server over HTTP. The embedding keeps the program's own
  control flow and makes its effects explicit:
  \<^item> the server is a function from the history of the session (every request and sleep so
    far, the current request last) to its reply, so a reply may depend on the request, on
    earlier requests and on elapsed time;
  \<^item> every request sent and every \<open>asyncio.sleep\<close> is appended to a trace, which is
    threaded through all operations;
  \<^item> every \<open>raise\<close> is a value \<open>Inl e\<close> of the result;
  \<^item> the caller's \<open>params\<close> dictionary, which the client mutates in place, is returned
    next to the result;
  \<^item> the unbounded \<open>while True\<close> of the job-queue run is a partial function in the option
    monad: \<open>None\<close> is a run that never returns.

  The context managers \<open>_fetch\<close> and \<open>_runOnJobQueue\<close> have no \<open>except\<close> around their
  \<open>yield\<close>: whatever the \<open>with\<close> body raises passes through them unchanged, so they are
  modelled up to the point where they hand over the response. \<open>query\<close> yields inside its
  \<open>try\<close>, so the \<open>with\<close> body of its caller is a parameter of the model. Of the log
  lines only the constant line that opens a job-queue run is kept in the trace, as the
  observable mark of that run. Python's \<open>_fetch\<close> and \<open>_runOnJobQueue\<close> lose their leading
  underscore.
\<close>

subsection \<open>Values\<close>

text \<open>JSON values as Python sees them after decoding; a dictionary keeps insertion order.\<close>

datatype json =
  JNull
| JBool bool
| JNum int
| JStr string
| JArr "json list"
| JObj "(string \<times> json) list"

type_synonym dict = "(string \<times> json) list"

datatype error =
  ApiError json
| KeyError string
| TypeError
| JSONDecodeError
| ClientError string
| UnexpectedError string
| ProtobufDecodeError
| RuntimeError string

text \<open>
  \<open>obj[key]\<close> for a string key: a dictionary without the key raises KeyError, a value
  that is no dictionary raises TypeError.
\<close>

fun subscript :: "json \<Rightarrow> string \<Rightarrow> error + json" where
  "subscript (JObj d) k = (case map_of d k of None \<Rightarrow> Inl (KeyError k) | Some v \<Rightarrow> Inr v)"
| "subscript _ k = Inl TypeError"

text \<open>
  \<open>Format t v\<close> is the Python string \<open>t % v\<close> for a template \<open>t\<close> with a single
  \<open>%s\<close>; \<open>t % str(v)\<close> is the same string.
\<close>

datatype url = Format string json

text \<open>
  An HTTP response: \<open>json_of\<close> is what \<open>response.json()\<close> returns, \<open>None\<close> when the
  body does not decode.
\<close>

record response =
  status :: int
  content :: string
  json_of :: "json option"

datatype reply = ConnectionError string | Reply response

datatype event =
  Request string url "json option"
| Sleep nat
| LogInfo string

type_synonym trace = "event list"

type_synonym server = "trace \<Rightarrow> reply"

subsection \<open>ClientConfig\<close>

record config =
  statusUrl :: string
  queryUrl :: string
  resultUrl :: string
  httpMaxRetryCount :: int
  apikey :: string

definition ClientConfig :: "string \<Rightarrow> config" where
  "ClientConfig key =
     \<lparr> statusUrl = ''http://mystaging.meteoblue.com/queue/status/%s'',
       queryUrl = ''http://mystaging.meteoblue.com/dataset/query?apikey=%s'',
       resultUrl = ''http://queueresults.meteoblue.com/%s'',
       httpMaxRetryCount = 5,
       apikey = key \<rparr>"

subsection \<open>Client._fetch\<close>

function fetch ::
  "config \<Rightarrow> server \<Rightarrow> string \<Rightarrow> url \<Rightarrow> int \<Rightarrow> json option \<Rightarrow> trace
     \<Rightarrow> (error + response) \<times> trace" where
  "fetch cfg srv method url retryCount json w =
     (let w1 = w @ [Request method url json] in
      case srv w1 of
        ConnectionError e \<Rightarrow> (Inl (ClientError e), w1)
      | Reply r \<Rightarrow>
          if 200 \<le> status r \<and> status r \<le> 299 then (Inr r, w1)
          else if retryCount < httpMaxRetryCount cfg
                  \<and> (status r = 408 \<or> (500 \<le> status r \<and> status r \<le> 599))
          then fetch cfg srv method url (retryCount + 1) None (w1 @ [Sleep 1])
          else if status r = 400 then
            (case json_of r of
               None \<Rightarrow> (Inl JSONDecodeError, w1)
             | Some j \<Rightarrow>
                 (case subscript j ''error_message'' of
                    Inl e \<Rightarrow> (Inl e, w1)
                  | Inr m \<Rightarrow> (Inl (ApiError m), w1)))
          else (Inl (UnexpectedError (content r)), w1))"
  by pat_completeness auto
termination
  by (relation "measure (\<lambda>(cfg, srv, method, url, retryCount, json, w).
                  nat (httpMaxRetryCount cfg - retryCount))") auto

declare fetch.simps [simp del]

subsection \<open>Client._runOnJobQueue\<close>

text \<open>The \<open>while True\<close> loop that waits for the job; \<open>Inr ()\<close> is leaving by \<open>break\<close>.\<close>

partial_function (option) poll ::
  "config \<Rightarrow> server \<Rightarrow> url \<Rightarrow> trace \<Rightarrow> ((error + unit) \<times> trace) option" where
  "poll cfg srv jobStatusUrl w =
     (case fetch cfg srv ''GET'' jobStatusUrl 0 None w of
        (Inl e, w1) \<Rightarrow> Some (Inl e, w1)
      | (Inr r, w1) \<Rightarrow>
          (case json_of r of
             None \<Rightarrow> Some (Inl JSONDecodeError, w1)
           | Some j \<Rightarrow>
               (case subscript j ''status'' of
                  Inl e \<Rightarrow> Some (Inl e, w1)
                | Inr st \<Rightarrow>
                    if st = JStr ''finished'' then Some (Inr (), w1)
                    else if st = JStr ''deleted''
                    then Some (Inl (ApiError (JStr ''Job was canceled'')), w1)
                    else if st = JStr ''error'' then
                      (case subscript j ''error_message'' of
                         Inl e \<Rightarrow> Some (Inl e, w1)
                       | Inr m \<Rightarrow> Some (Inl (ApiError m), w1))
                    else poll cfg srv jobStatusUrl (w1 @ [Sleep 5]))))"

declare poll.simps [code]

definition runOnJobQueue ::
  "config \<Rightarrow> server \<Rightarrow> dict \<Rightarrow> trace \<Rightarrow> ((error + response) \<times> dict \<times> trace) option" where
  "runOnJobQueue cfg srv params w =
     (let w0 = w @ [LogInfo ''Starting job on queue''];
          params1 = AList.update ''runOnJobQueue'' (JBool True) params;
          url = Format (queryUrl cfg) (JStr (apikey cfg))
      in case fetch cfg srv ''POST'' url 0 (Some (JObj params1)) w0 of
           (Inl e, w1) \<Rightarrow> Some (Inl e, params1, w1)
         | (Inr r, w1) \<Rightarrow>
             (case json_of r of
                None \<Rightarrow> Some (Inl JSONDecodeError, params1, w1)
              | Some responseJson \<Rightarrow>
                  (case subscript responseJson ''id'' of
                     Inl e \<Rightarrow> Some (Inl e, params1, w1)
                   | Inr jobId \<Rightarrow>
                       (case poll cfg srv (Format (statusUrl cfg) jobId) w1 of
                          None \<Rightarrow> None
                        | Some (Inl e, w2) \<Rightarrow> Some (Inl e, params1, w2)
                        | Some (Inr u, w2) \<Rightarrow>
                            (case fetch cfg srv ''GET'' (Format (resultUrl cfg) jobId) 0 None w2 of
                               (res, w3) \<Rightarrow> Some (res, params1, w3))))))"

subsection \<open>Client.query and Client.asProtobuf\<close>

definition sentinel :: string where
  "sentinel = ''This job must be executed on a job-queue''"

text \<open>
  \<open>query\<close> is a context manager: \<open>body\<close> is the block of the caller's \<open>async with\<close>,
  run on the response that \<open>query\<close> yields, and \<open>Inl e\<close> is the block raising \<open>e\<close>. The
  \<open>yield\<close> of the direct attempt stands inside the \<open>try\<close>, so an \<open>ApiError\<close> raised by the
  block is thrown into the generator there and reaches the same \<open>except\<close> clause as an
  \<open>ApiError\<close> of the fetch. When the job-queue run entered from that clause succeeds,
  the generator yields a second time and \<open>contextlib\<close> raises its \<open>RuntimeError\<close>. The
  \<open>yield\<close> of the job-queue run stands in the handler, outside the \<open>try\<close>: what the block
  raises there propagates.
\<close>

definition query ::
  "config \<Rightarrow> server \<Rightarrow> dict \<Rightarrow> (response \<Rightarrow> error + 'a) \<Rightarrow> trace
     \<Rightarrow> ((error + 'a) \<times> dict \<times> trace) option" where
  "query cfg srv params body w =
     (let url = Format (queryUrl cfg) (JStr (apikey cfg))
      in case fetch cfg srv ''POST'' url 0 (Some (JObj params)) w of
           (Inr r, w1) \<Rightarrow>
             (case body r of
                Inr x \<Rightarrow> Some (Inr x, params, w1)
              | Inl (ApiError message) \<Rightarrow>
                  if message \<noteq> JStr sentinel then Some (Inl (ApiError message), params, w1)
                  else
                    (case runOnJobQueue cfg srv params w1 of
                       None \<Rightarrow> None
                     | Some (Inl e, p, w2) \<Rightarrow> Some (Inl e, p, w2)
                     | Some (Inr r2, p, w2) \<Rightarrow>
                         Some (Inl (RuntimeError ''generator didn't stop after athrow()''), p, w2))
              | Inl e \<Rightarrow> Some (Inl e, params, w1))
         | (Inl (ApiError message), w1) \<Rightarrow>
             if message \<noteq> JStr sentinel then Some (Inl (ApiError message), params, w1)
             else
               (case runOnJobQueue cfg srv params w1 of
                  None \<Rightarrow> None
                | Some (Inl e, p, w2) \<Rightarrow> Some (Inl e, p, w2)
                | Some (Inr r2, p, w2) \<Rightarrow>
                    (case body r2 of
                       Inl e \<Rightarrow> Some (Inl e, p, w2)
                     | Inr x \<Rightarrow> Some (Inr x, p, w2)))
         | (Inl e, w1) \<Rightarrow> Some (Inl e, params, w1))"

text \<open>
  \<open>Dataset_pb2\<close> is not part of the sources: the protobuf parser is the parameter
  \<open>parse\<close>, \<open>None\<close> when \<open>ParseFromString\<close> raises. The block of \<open>asProtobuf\<close> reads the
  body of the response and parses it.
\<close>

definition asProtobuf ::
  "(string \<Rightarrow> 'm option) \<Rightarrow> config \<Rightarrow> server \<Rightarrow> dict \<Rightarrow> trace
     \<Rightarrow> ((error + 'm) \<times> dict \<times> trace) option" where
  "asProtobuf parse cfg srv params w =
     (let params1 = AList.update ''format'' (JStr ''protobuf'') params
      in query cfg srv params1
           (\<lambda>response. case parse (content response) of
                          None \<Rightarrow> Inl ProtobufDecodeError
                        | Some msg \<Rightarrow> Inr msg)
           w)"

subsection \<open>Vocabulary of the properties\<close>

text \<open>The endpoint every query is posted to.\<close>

definition queryEndpoint :: "config \<Rightarrow> url" where
  "queryEndpoint cfg = Format (queryUrl cfg) (JStr (apikey cfg))"

text \<open>
  The query takes the \<open>except\<close> branch that starts a job-queue run: the direct fetch,
  or after a successful direct fetch the caller's block, raises the \<open>ApiError\<close> with the
  sentinel message.
\<close>

definition escalates ::
  "config \<Rightarrow> server \<Rightarrow> dict \<Rightarrow> (response \<Rightarrow> error + 'a) \<Rightarrow> trace \<Rightarrow> bool" where
  "escalates cfg srv params body w =
     (case fst (fetch cfg srv ''POST'' (queryEndpoint cfg) 0 (Some (JObj params)) w) of
        Inl e \<Rightarrow> e = ApiError (JStr sentinel)
      | Inr r \<Rightarrow> body r = Inl (ApiError (JStr sentinel)))"

text \<open>The number of job-queue runs begun in a trace.\<close>

definition jobQueueRuns :: "trace \<Rightarrow> nat" where
  "jobQueueRuns w = count_list w (LogInfo ''Starting job on queue'')"

text \<open>The three job states that end the polling.\<close>

definition terminal :: "json \<Rightarrow> bool" where
  "terminal st \<longleftrightarrow> st = JStr ''finished'' \<or> st = JStr ''deleted'' \<or> st = JStr ''error''"

text \<open>
  \<open>pollStart k w\<close> is the trace at the start of the poll number \<open>k\<close> (counted from 0) of
  a loop entered at \<open>w\<close>, each earlier poll having gone round the loop: its requests,
  then the sleep of 5 seconds.
\<close>

fun pollStart :: "config \<Rightarrow> server \<Rightarrow> url \<Rightarrow> nat \<Rightarrow> trace \<Rightarrow> trace" where
  "pollStart cfg srv u 0 w = w"
| "pollStart cfg srv u (Suc k) w =
     pollStart cfg srv u k (snd (fetch cfg srv ''GET'' u 0 None w) @ [Sleep 5])"

text \<open>The poll at \<open>w\<close> reads a status and the status is not terminal.\<close>

definition pollAgain :: "config \<Rightarrow> server \<Rightarrow> url \<Rightarrow> trace \<Rightarrow> bool" where
  "pollAgain cfg srv u w =
     (case fetch cfg srv ''GET'' u 0 None w of
        (Inl e, w1) \<Rightarrow> False
      | (Inr r, w1) \<Rightarrow>
          (case json_of r of
             None \<Rightarrow> False
           | Some j \<Rightarrow>
               (case subscript j ''status'' of
                  Inl e \<Rightarrow> False
                | Inr st \<Rightarrow> \<not> terminal st)))"

subsection \<open>Servers for the examples\<close>

fun isRequest :: "event \<Rightarrow> bool" where
  "isRequest (Request m u b) = True"
| "isRequest e = False"

text \<open>
  A server that answers the requests of a session from a list, in order, and refuses
  the connection once the list is used up.
\<close>

definition script :: "reply list \<Rightarrow> server" where
  "script rs w =
     (let n = length (filter isRequest w)
      in if 0 < n \<and> n \<le> length rs then rs ! (n - 1)
         else ConnectionError ''refused'')"

definition http :: "int \<Rightarrow> string \<Rightarrow> reply" where
  "http s c = Reply \<lparr> status = s, content = c, json_of = None \<rparr>"

definition httpJson :: "int \<Rightarrow> dict \<Rightarrow> reply" where
  "httpJson s d = Reply \<lparr> status = s, content = [], json_of = Some (JObj d) \<rparr>"

definition httpValue :: "int \<Rightarrow> json \<Rightarrow> reply" where
  "httpValue s j = Reply \<lparr> status = s, content = [], json_of = Some j \<rparr>"

text \<open>A status endpoint whose job is pending for the first \<open>n\<close> polls and finished after.\<close>

definition finishesAfter :: "nat \<Rightarrow> server" where
  "finishesAfter n w =
     httpJson 200
       [(''status'', JStr (if n < length (filter isRequest w) then ''finished'' else ''pending''))]"

text \<open>A server that accepts the job as number 42 and leaves it pending for ever.\<close>

definition alwaysPending :: server where
  "alwaysPending w = httpJson 200 [(''id'', JNum 42), (''status'', JStr ''pending'')]"

section \<open>Properties\<close>

subsection \<open>What a fetch and a polling loop leave in the trace\<close>

lemma fetch_trace:
  "\<exists>es. snd (fetch cfg srv meth url retryCount json w) = w @ Request meth url json # es
      \<and> set es \<subseteq> {Sleep 1, Request meth url None}"
proof (induction cfg srv meth url retryCount json w rule: fetch.induct)
  case (1 cfg srv meth url retryCount json w)
  show ?case
  proof (cases "srv (w @ [Request meth url json])")
    case (ConnectionError e)
    then show ?thesis by (subst fetch.simps) (simp add: Let_def)
  next
    case (Reply r)
    show ?thesis
    proof (cases "\<not> (200 \<le> status r \<and> status r \<le> 299) \<and> retryCount < httpMaxRetryCount cfg
                  \<and> (status r = 408 \<or> (500 \<le> status r \<and> status r \<le> 599))")
      case True
      with 1 [OF refl Reply] obtain es where
        "snd (fetch cfg srv meth url (retryCount + 1) None ((w @ [Request meth url json]) @ [Sleep 1]))
           = ((w @ [Request meth url json]) @ [Sleep 1]) @ Request meth url None # es"
        "set es \<subseteq> {Sleep 1, Request meth url None}"
        by blast
      with True Reply show ?thesis
        by (subst fetch.simps) (auto simp: Let_def)
    next
      case False
      with Reply show ?thesis
        by (subst fetch.simps) (auto simp: Let_def split: option.splits sum.splits)
    qed
  qed
qed

lemma fetch_runs: "jobQueueRuns (snd (fetch cfg srv meth url retryCount json w)) = jobQueueRuns w"
proof -
  obtain es where es: "snd (fetch cfg srv meth url retryCount json w) = w @ Request meth url json # es"
    "set es \<subseteq> {Sleep 1, Request meth url None}"
    using fetch_trace by blast
  then have "LogInfo ''Starting job on queue'' \<notin> set es" by auto
  then have "count_list es (LogInfo ''Starting job on queue'') = 0" by simp
  with es(1) show ?thesis by (simp add: jobQueueRuns_def)
qed

lemma fetch_success_reply:
  "fetch cfg srv meth url retryCount json w = (Inr r, w1)
     \<Longrightarrow> \<exists>h. srv h = Reply r \<and> 200 \<le> status r \<and> status r \<le> 299"
proof (induction cfg srv meth url retryCount json w rule: fetch.induct)
  case (1 cfg srv meth url retryCount json w)
  show ?case
  proof (cases "srv (w @ [Request meth url json])")
    case (ConnectionError e)
    with 1(2) show ?thesis by (subst (asm) fetch.simps) (simp add: Let_def)
  next
    case (Reply r')
    show ?thesis
    proof (cases "\<not> (200 \<le> status r' \<and> status r' \<le> 299) \<and> retryCount < httpMaxRetryCount cfg
                  \<and> (status r' = 408 \<or> (500 \<le> status r' \<and> status r' \<le> 599))")
      case True
      with Reply 1(2) have "fetch cfg srv meth url (retryCount + 1) None
               ((w @ [Request meth url json]) @ [Sleep 1]) = (Inr r, w1)"
        by (subst (asm) fetch.simps) (auto simp: Let_def)
      with 1(1) [OF refl Reply] True show ?thesis by blast
    next
      case False
      with Reply 1(2) have "r = r' \<and> 200 \<le> status r' \<and> status r' \<le> 299"
        by (subst (asm) fetch.simps) (auto simp: Let_def split: option.splits sum.splits if_splits)
      with Reply show ?thesis by blast
    qed
  qed
qed

lemma poll_again:
  "pollAgain cfg srv u w
     \<Longrightarrow> poll cfg srv u w = poll cfg srv u (snd (fetch cfg srv ''GET'' u 0 None w) @ [Sleep 5])"
  by (subst poll.simps)
     (auto simp: pollAgain_def terminal_def split: prod.splits sum.splits option.splits)

lemma poll_exit: "\<not> pollAgain cfg srv u w \<Longrightarrow> poll cfg srv u w \<noteq> None"
  by (subst poll.simps)
     (auto simp: pollAgain_def terminal_def split: prod.splits sum.splits option.splits)

lemma poll_returns_at:
  "\<not> pollAgain cfg srv u (pollStart cfg srv u k w) \<Longrightarrow> poll cfg srv u w \<noteq> None"
proof (induction k arbitrary: w)
  case 0
  then show ?case by (simp add: poll_exit)
next
  case (Suc k)
  show ?case
  proof (cases "pollAgain cfg srv u w")
    case True
    with Suc show ?thesis by (simp add: poll_again)
  next
    case False
    then show ?thesis by (rule poll_exit)
  qed
qed

lemma poll_Some_exit:
  assumes "poll cfg srv u w = Some y"
  shows "\<exists>k. \<not> pollAgain cfg srv u (pollStart cfg srv u k w)"
proof (rule poll.raw_induct
    [where P = "\<lambda>cfg srv u w y. \<exists>k. \<not> pollAgain cfg srv u (pollStart cfg srv u k w)",
      OF _ assms], goal_cases)
  case (1 poll' cfg srv u w y)
  show ?case
  proof (cases "pollAgain cfg srv u w")
    case False
    then have "\<not> pollAgain cfg srv u (pollStart cfg srv u 0 w)" by simp
    then show ?thesis by blast
  next
    case True
    with 1(2) have "poll' cfg srv u (snd (fetch cfg srv ''GET'' u 0 None w) @ [Sleep 5]) = Some y"
      by (auto simp: pollAgain_def terminal_def split: prod.splits sum.splits option.splits if_splits)
    from 1(1) [OF this] obtain k where
      "\<not> pollAgain cfg srv u (pollStart cfg srv u (Suc k) w)" by auto
    then show ?thesis by blast
  qed
qed

lemma poll_runs:
  assumes "poll cfg srv u w = Some y"
  shows "jobQueueRuns (snd y) = jobQueueRuns w"
proof (rule poll.raw_induct
    [where P = "\<lambda>cfg srv u w y. jobQueueRuns (snd y) = jobQueueRuns w", OF _ assms],
    goal_cases)
  case (1 poll' cfg srv u w y)
  show ?case
  proof (cases "pollAgain cfg srv u w")
    case False
    with 1(2) have "snd y = snd (fetch cfg srv ''GET'' u 0 None w)"
      by (auto simp: pollAgain_def terminal_def split: prod.splits sum.splits option.splits if_splits)
    then show ?thesis by (simp add: fetch_runs)
  next
    case True
    with 1(2) have "poll' cfg srv u (snd (fetch cfg srv ''GET'' u 0 None w) @ [Sleep 5]) = Some y"
      by (auto simp: pollAgain_def terminal_def split: prod.splits sum.splits option.splits if_splits)
    from 1(1) [OF this]
    have "jobQueueRuns (snd y) = jobQueueRuns (snd (fetch cfg srv ''GET'' u 0 None w) @ [Sleep 5])" .
    also have "\<dots> = jobQueueRuns (snd (fetch cfg srv ''GET'' u 0 None w))"
      by (simp add: jobQueueRuns_def)
    finally show ?thesis by (simp add: fetch_runs)
  qed
qed

subsection \<open>The transport: retry, 400 and the request sent again\<close>

text \<open>
  C2. A response with status 408 or 500 to 599, received at attempt count \<open>retryCount\<close>:
  while \<open>retryCount\<close> is below \<open>httpMaxRetryCount\<close> the call sleeps 1 second and goes on
  as the one fetch with attempt count \<open>retryCount + 1\<close>; at \<open>retryCount = httpMaxRetryCount\<close>
  the call fails at once, with nothing after its request in the trace.
\<close>

theorem fetch_retry:
  assumes "srv (w @ [Request meth url json]) = Reply r"
      and "status r = 408 \<or> (500 \<le> status r \<and> status r \<le> 599)"
  shows "(retryCount < httpMaxRetryCount cfg \<longrightarrow>
            fetch cfg srv meth url retryCount json w
              = fetch cfg srv meth url (retryCount + 1) None
                  (w @ [Request meth url json, Sleep 1]))
       \<and> (retryCount = httpMaxRetryCount cfg \<longrightarrow>
            fetch cfg srv meth url retryCount json w
              = (Inl (UnexpectedError (content r)), w @ [Request meth url json]))"
  using assms by (subst fetch.simps, subst (3) fetch.simps) (auto simp: Let_def)

theorem fetch_retry_witness:
  "fetch (ClientConfig ''key'') (script [http 503 ''busy'', http 408 ''slow''])
       ''GET'' (Format ''http://h/%s'' (JNum 7)) 4 None []
     = (Inl (UnexpectedError ''slow''),
        [Request ''GET'' (Format ''http://h/%s'' (JNum 7)) None, Sleep 1,
         Request ''GET'' (Format ''http://h/%s'' (JNum 7)) None])"
  using
    fetch_retry [where srv = "script [http 503 ''busy'', http 408 ''slow'']" and w = "[]"
      and meth = "''GET''" and url = "Format ''http://h/%s'' (JNum 7)" and json = None
      and r = "\<lparr>status = 503, content = ''busy'', json_of = None\<rparr>"
      and retryCount = 4 and cfg = "ClientConfig ''key''"]
    fetch_retry [where srv = "script [http 503 ''busy'', http 408 ''slow'']"
      and w = "[Request ''GET'' (Format ''http://h/%s'' (JNum 7)) None, Sleep 1]"
      and meth = "''GET''" and url = "Format ''http://h/%s'' (JNum 7)" and json = None
      and r = "\<lparr>status = 408, content = ''slow'', json_of = None\<rparr>"
      and retryCount = 5 and cfg = "ClientConfig ''key''"]
  by (simp add: script_def http_def ClientConfig_def)

text \<open>
  C4. A response with status 400 whose JSON body has the field \<open>error_message\<close> with
  value \<open>X\<close> makes the fetch fail with \<open>ApiError X\<close>, at every attempt count, and its
  request is the last event of the trace: neither sleep nor retry follows.
\<close>

theorem fetch_400_ApiError:
  assumes "srv (w @ [Request meth url json]) = Reply r"
      and "status r = 400"
      and "json_of r = Some (JObj d)"
      and "map_of d ''error_message'' = Some X"
  shows "fetch cfg srv meth url retryCount json w
           = (Inl (ApiError X), w @ [Request meth url json])"
  using assms by (subst fetch.simps) (simp add: Let_def)

theorem fetch_400_ApiError_witness:
  "fetch (ClientConfig ''key'') (script [httpJson 400 [(''error_message'', JStr ''X'')]])
       ''POST'' (Format ''http://h/%s'' (JStr ''key'')) 3 (Some (JObj [])) []
     = (Inl (ApiError (JStr ''X'')),
        [Request ''POST'' (Format ''http://h/%s'' (JStr ''key'')) (Some (JObj []))])"
  using
    fetch_400_ApiError [where srv = "script [httpJson 400 [(''error_message'', JStr ''X'')]]"
      and w = "[]" and meth = "''POST''" and url = "Format ''http://h/%s'' (JStr ''key'')"
      and json = "Some (JObj [])" and d = "[(''error_message'', JStr ''X'')]"
      and r = "\<lparr>status = 400, content = [],
                json_of = Some (JObj [(''error_message'', JStr ''X'')])\<rparr>"
      and X = "JStr ''X''" and retryCount = 3 and cfg = "ClientConfig ''key''"]
  by (simp add: script_def httpJson_def)

text \<open>
  C5. A POST with a JSON body that is answered 503 and then 200: the request sent again
  carries no body (\<open>None\<close>), where the first carried the caller's JSON.
\<close>

theorem fetch_retry_drops_body:
  "fetch (ClientConfig ''key'') (script [http 503 ''busy'', httpJson 200 []])
       ''POST'' (Format ''http://h/%s'' (JStr ''key'')) 0 (Some (JObj [(''domain'', JStr ''NEMS'')])) []
     = (Inr \<lparr>status = 200, content = [], json_of = Some (JObj [])\<rparr>,
        [Request ''POST'' (Format ''http://h/%s'' (JStr ''key'')) (Some (JObj [(''domain'', JStr ''NEMS'')])),
         Sleep 1,
         Request ''POST'' (Format ''http://h/%s'' (JStr ''key'')) None])"
  by (simp add: fetch.simps script_def http_def httpJson_def ClientConfig_def)

lemma subscript_lacks:
  assumes "\<forall>d. j = JObj d \<longrightarrow> map_of d k = None"
  shows "subscript j k = Inl (if (\<exists>d. j = JObj d) then KeyError k else TypeError)"
  using assms by (cases j) simp_all

text \<open>
  C8. A 400 response whose body is valid JSON without the field \<open>error_message\<close> makes
  the fetch fail with the error of the lookup, never with an \<open>ApiError\<close>: \<open>KeyError\<close>
  when the body is a JSON object, \<open>TypeError\<close> when it is any other JSON value. A poll
  whose response is valid JSON without the field \<open>status\<close> ends the polling with the
  same two errors.
\<close>

theorem missing_field_lookup_error:
  "(srv (w @ [Request meth url json]) = Reply r \<and> status r = 400
      \<and> json_of r = Some j \<and> (\<forall>d. j = JObj d \<longrightarrow> map_of d ''error_message'' = None)
     \<longrightarrow> fetch cfg srv meth url retryCount json w
           = (Inl (if (\<exists>d. j = JObj d) then KeyError ''error_message'' else TypeError),
              w @ [Request meth url json])
         \<and> (\<forall>m. fst (fetch cfg srv meth url retryCount json w) \<noteq> Inl (ApiError m)))
   \<and> (fetch cfg srv ''GET'' u 0 None w = (Inr r', w')
      \<and> json_of r' = Some j' \<and> (\<forall>d. j' = JObj d \<longrightarrow> map_of d ''status'' = None)
     \<longrightarrow> poll cfg srv u w
           = Some (Inl (if (\<exists>d. j' = JObj d) then KeyError ''status'' else TypeError), w'))"
proof (intro conjI impI)
  assume a: "srv (w @ [Request meth url json]) = Reply r \<and> status r = 400
      \<and> json_of r = Some j \<and> (\<forall>d. j = JObj d \<longrightarrow> map_of d ''error_message'' = None)"
  then have s: "subscript j ''error_message''
      = Inl (if (\<exists>d. j = JObj d) then KeyError ''error_message'' else TypeError)"
    by (simp add: subscript_lacks)
  from a show f: "fetch cfg srv meth url retryCount json w
           = (Inl (if (\<exists>d. j = JObj d) then KeyError ''error_message'' else TypeError),
              w @ [Request meth url json])"
    by (subst fetch.simps) (simp add: Let_def s del: subscript.simps)
  show "\<forall>m. fst (fetch cfg srv meth url retryCount json w) \<noteq> Inl (ApiError m)"
    by (simp add: f)
next
  assume a: "fetch cfg srv ''GET'' u 0 None w = (Inr r', w')
      \<and> json_of r' = Some j' \<and> (\<forall>d. j' = JObj d \<longrightarrow> map_of d ''status'' = None)"
  then have s: "subscript j' ''status''
      = Inl (if (\<exists>d. j' = JObj d) then KeyError ''status'' else TypeError)"
    by (simp add: subscript_lacks)
  from a show "poll cfg srv u w
           = Some (Inl (if (\<exists>d. j' = JObj d) then KeyError ''status'' else TypeError), w')"
    by (subst poll.simps) (simp add: s del: subscript.simps)
qed

theorem missing_field_lookup_error_witness:
  "fetch (ClientConfig ''key'') (script [httpJson 400 [(''detail'', JStr ''bad query'')]])
       ''POST'' (Format ''http://h/%s'' (JStr ''key'')) 0 (Some (JObj [])) []
     = (Inl (KeyError ''error_message''),
        [Request ''POST'' (Format ''http://h/%s'' (JStr ''key'')) (Some (JObj []))])
   \<and> fetch (ClientConfig ''key'') (script [httpValue 400 (JStr ''bad query'')])
       ''POST'' (Format ''http://h/%s'' (JStr ''key'')) 0 (Some (JObj [])) []
     = (Inl TypeError,
        [Request ''POST'' (Format ''http://h/%s'' (JStr ''key'')) (Some (JObj []))])
   \<and> poll (ClientConfig ''key'') (script [httpJson 200 [(''state'', JStr ''finished'')]])
       (Format ''http://h/status/%s'' (JNum 42)) []
     = Some (Inl (KeyError ''status''),
             [Request ''GET'' (Format ''http://h/status/%s'' (JNum 42)) None])
   \<and> poll (ClientConfig ''key'') (script [httpValue 200 JNull])
       (Format ''http://h/status/%s'' (JNum 42)) []
     = Some (Inl TypeError,
             [Request ''GET'' (Format ''http://h/status/%s'' (JNum 42)) None])"
proof -
  let ?cfg = "ClientConfig ''key''"
  let ?s1 = "script [httpJson 400 [(''detail'', JStr ''bad query'')]]"
  let ?s2 = "script [httpValue 400 (JStr ''bad query'')]"
  let ?s3 = "script [httpJson 200 [(''state'', JStr ''finished'')]]"
  let ?s4 = "script [httpValue 200 JNull]"
  let ?q = "Format ''http://h/%s'' (JStr ''key'')"
  let ?u = "Format ''http://h/status/%s'' (JNum 42)"
  have h3: "fetch ?cfg ?s3 ''GET'' ?u 0 None []
      = (Inr \<lparr>status = 200, content = [], json_of = Some (JObj [(''state'', JStr ''finished'')])\<rparr>,
         [Request ''GET'' ?u None])"
    by (simp add: fetch.simps script_def httpJson_def)
  have h4: "fetch ?cfg ?s4 ''GET'' ?u 0 None []
      = (Inr \<lparr>status = 200, content = [], json_of = Some JNull\<rparr>, [Request ''GET'' ?u None])"
    by (simp add: fetch.simps script_def httpValue_def)
  have a: "fetch ?cfg ?s1 ''POST'' ?q 0 (Some (JObj [])) []
     = (Inl (KeyError ''error_message''), [Request ''POST'' ?q (Some (JObj []))])"
    using missing_field_lookup_error [where srv = ?s1 and w = "[]" and meth = "''POST''"
      and url = ?q and json = "Some (JObj [])" and j = "JObj [(''detail'', JStr ''bad query'')]"
      and r = "\<lparr>status = 400, content = [],
                json_of = Some (JObj [(''detail'', JStr ''bad query'')])\<rparr>"
      and retryCount = 0 and cfg = ?cfg]
    by (simp add: script_def httpJson_def)
  have b: "fetch ?cfg ?s2 ''POST'' ?q 0 (Some (JObj [])) []
     = (Inl TypeError, [Request ''POST'' ?q (Some (JObj []))])"
    using missing_field_lookup_error [where srv = ?s2 and w = "[]" and meth = "''POST''"
      and url = ?q and json = "Some (JObj [])" and j = "JStr ''bad query''"
      and r = "\<lparr>status = 400, content = [], json_of = Some (JStr ''bad query'')\<rparr>"
      and retryCount = 0 and cfg = ?cfg]
    by (simp add: script_def httpValue_def)
  have c: "poll ?cfg ?s3 ?u [] = Some (Inl (KeyError ''status''), [Request ''GET'' ?u None])"
    using h3 missing_field_lookup_error [where srv = ?s3 and w = "[]" and u = ?u
      and j' = "JObj [(''state'', JStr ''finished'')]" and w' = "[Request ''GET'' ?u None]"
      and r' = "\<lparr>status = 200, content = [],
                json_of = Some (JObj [(''state'', JStr ''finished'')])\<rparr>"
      and cfg = ?cfg]
    by simp
  have d: "poll ?cfg ?s4 ?u [] = Some (Inl TypeError, [Request ''GET'' ?u None])"
    using h4 missing_field_lookup_error [where srv = ?s4 and w = "[]" and u = ?u
      and j' = JNull and w' = "[Request ''GET'' ?u None]"
      and r' = "\<lparr>status = 200, content = [], json_of = Some JNull\<rparr>" and cfg = ?cfg]
    by simp
  from a b c d show ?thesis by simp
qed

text \<open>
  A 400 response whose body is the empty JSON array: valid JSON without the field, and
  the fetch fails with \<open>TypeError\<close>, not \<open>KeyError\<close>.
\<close>

theorem missing_field_counterexample:
  "fetch (ClientConfig ''key'') (script [httpValue 400 (JArr [])])
       ''POST'' (Format ''http://h/%s'' (JStr ''key'')) 0 (Some (JObj [])) []
     = (Inl TypeError,
        [Request ''POST'' (Format ''http://h/%s'' (JStr ''key'')) (Some (JObj []))])
   \<and> fst (fetch (ClientConfig ''key'') (script [httpValue 400 (JArr [])])
            ''POST'' (Format ''http://h/%s'' (JStr ''key'')) 0 (Some (JObj [])) [])
       \<noteq> Inl (KeyError ''error_message'')"
  by (simp add: fetch.simps script_def httpValue_def)

subsection \<open>The job-queue run: submit and poll\<close>

lemma run_after_submit:
  assumes "fetch cfg srv ''POST'' (queryEndpoint cfg) 0
             (Some (JObj (AList.update ''runOnJobQueue'' (JBool True) params)))
             (w @ [LogInfo ''Starting job on queue'']) = (Inr r, w')"
      and "json_of r = Some j"
      and "subscript j ''id'' = Inr jobId"
  shows "runOnJobQueue cfg srv params w =
           (case poll cfg srv (Format (statusUrl cfg) jobId) w' of
              None \<Rightarrow> None
            | Some (Inl e, w2) \<Rightarrow>
                Some (Inl e, AList.update ''runOnJobQueue'' (JBool True) params, w2)
            | Some (Inr b, w2) \<Rightarrow>
                Some (fst (fetch cfg srv ''GET'' (Format (resultUrl cfg) jobId) 0 None w2),
                      AList.update ''runOnJobQueue'' (JBool True) params,
                      snd (fetch cfg srv ''GET'' (Format (resultUrl cfg) jobId) 0 None w2)))"
  using assms
  by (simp add: runOnJobQueue_def queryEndpoint_def Let_def
           split: option.splits prod.splits sum.splits)

text \<open>
  C3. A poll that reads the status \<open>st\<close> from its response: \<open>finished\<close> leaves the
  loop, and the run then fetches the result; \<open>deleted\<close> fails with
  \<open>ApiError "Job was canceled"\<close>; \<open>error\<close> fails with the \<open>ApiError\<close> of the response's
  own \<open>error_message\<close>; every other status sleeps 5 seconds and polls again.
\<close>

theorem poll_status_cases:
  "(fetch cfg srv ''GET'' u 0 None w = (Inr r, w') \<and> json_of r = Some j
      \<and> subscript j ''status'' = Inr st
    \<longrightarrow> (st = JStr ''finished'' \<longrightarrow> poll cfg srv u w = Some (Inr (), w'))
      \<and> (st = JStr ''deleted'' \<longrightarrow>
            poll cfg srv u w = Some (Inl (ApiError (JStr ''Job was canceled'')), w'))
      \<and> (st = JStr ''error'' \<longrightarrow>
            (\<forall>m. subscript j ''error_message'' = Inr m \<longrightarrow>
                 poll cfg srv u w = Some (Inl (ApiError m), w')))
      \<and> (\<not> terminal st \<longrightarrow> poll cfg srv u w = poll cfg srv u (w' @ [Sleep 5])))
   \<and> (fetch cfg srv ''POST'' (queryEndpoint cfg) 0
         (Some (JObj (AList.update ''runOnJobQueue'' (JBool True) params)))
         (v @ [LogInfo ''Starting job on queue'']) = (Inr r0, v0)
      \<and> json_of r0 = Some j0 \<and> subscript j0 ''id'' = Inr jobId
      \<and> poll cfg srv (Format (statusUrl cfg) jobId) v0 = Some (Inr (), v')
    \<longrightarrow> runOnJobQueue cfg srv params v =
          Some (fst (fetch cfg srv ''GET'' (Format (resultUrl cfg) jobId) 0 None v'),
                AList.update ''runOnJobQueue'' (JBool True) params,
                snd (fetch cfg srv ''GET'' (Format (resultUrl cfg) jobId) 0 None v')))"
proof (intro conjI impI allI)
  assume a: "fetch cfg srv ''GET'' u 0 None w = (Inr r, w') \<and> json_of r = Some j
      \<and> subscript j ''status'' = Inr st"
  { assume "st = JStr ''finished''"
    with a show "poll cfg srv u w = Some (Inr (), w')"
      by (subst poll.simps) simp }
  { assume "st = JStr ''deleted''"
    with a show "poll cfg srv u w = Some (Inl (ApiError (JStr ''Job was canceled'')), w')"
      by (subst poll.simps) simp }
  { fix m assume "st = JStr ''error''" "subscript j ''error_message'' = Inr m"
    with a show "poll cfg srv u w = Some (Inl (ApiError m), w')"
      by (subst poll.simps) simp }
  { assume "\<not> terminal st"
    with a show "poll cfg srv u w = poll cfg srv u (w' @ [Sleep 5])"
      by (subst poll.simps) (simp add: terminal_def) }
next
  assume b: "fetch cfg srv ''POST'' (queryEndpoint cfg) 0
         (Some (JObj (AList.update ''runOnJobQueue'' (JBool True) params)))
         (v @ [LogInfo ''Starting job on queue'']) = (Inr r0, v0)
      \<and> json_of r0 = Some j0 \<and> subscript j0 ''id'' = Inr jobId
      \<and> poll cfg srv (Format (statusUrl cfg) jobId) v0 = Some (Inr (), v')"
  then show "runOnJobQueue cfg srv params v =
          Some (fst (fetch cfg srv ''GET'' (Format (resultUrl cfg) jobId) 0 None v'),
                AList.update ''runOnJobQueue'' (JBool True) params,
                snd (fetch cfg srv ''GET'' (Format (resultUrl cfg) jobId) 0 None v'))"
    by (simp add: run_after_submit [of cfg srv params v r0 v0 j0 jobId])
qed

text \<open>
  The statuses pending, pending, finished: two rounds of poll and sleep, then the third
  poll leaves the loop and the result is fetched.
\<close>

theorem poll_status_cases_witness:
  "runOnJobQueue (ClientConfig ''key'')
     (script [httpJson 200 [(''id'', JNum 42)],
              httpJson 200 [(''status'', JStr ''pending'')],
              httpJson 200 [(''status'', JStr ''pending'')],
              httpJson 200 [(''status'', JStr ''finished'')],
              http 200 ''bytes''])
     [(''format'', JStr ''json'')] []
   = Some (Inr \<lparr>status = 200, content = ''bytes'', json_of = None\<rparr>,
           [(''format'', JStr ''json''), (''runOnJobQueue'', JBool True)],
           [LogInfo ''Starting job on queue'',
            Request ''POST'' (queryEndpoint (ClientConfig ''key''))
              (Some (JObj [(''format'', JStr ''json''), (''runOnJobQueue'', JBool True)])),
            Request ''GET'' (Format (statusUrl (ClientConfig ''key'')) (JNum 42)) None,
            Sleep 5,
            Request ''GET'' (Format (statusUrl (ClientConfig ''key'')) (JNum 42)) None,
            Sleep 5,
            Request ''GET'' (Format (statusUrl (ClientConfig ''key'')) (JNum 42)) None,
            Request ''GET'' (Format (resultUrl (ClientConfig ''key'')) (JNum 42)) None])
   \<and> poll (ClientConfig ''key'') (script [httpJson 200 [(''status'', JStr ''deleted'')]])
       (Format (statusUrl (ClientConfig ''key'')) (JNum 42)) []
     = Some (Inl (ApiError (JStr ''Job was canceled'')),
             [Request ''GET'' (Format (statusUrl (ClientConfig ''key'')) (JNum 42)) None])
   \<and> poll (ClientConfig ''key'')
       (script [httpJson 200 [(''status'', JStr ''error''), (''error_message'', JStr ''Y'')]])
       (Format (statusUrl (ClientConfig ''key'')) (JNum 42)) []
     = Some (Inl (ApiError (JStr ''Y'')),
             [Request ''GET'' (Format (statusUrl (ClientConfig ''key'')) (JNum 42)) None])"
proof -
  let ?cfg = "ClientConfig ''key''"
  let ?srv = "script [httpJson 200 [(''id'', JNum 42)],
              httpJson 200 [(''status'', JStr ''pending'')],
              httpJson 200 [(''status'', JStr ''pending'')],
              httpJson 200 [(''status'', JStr ''finished'')],
              http 200 ''bytes'']"
  let ?p = "[(''format'', JStr ''json''), (''runOnJobQueue'', JBool True)]"
  let ?su = "Format (statusUrl ?cfg) (JNum 42)"
  let ?ru = "Format (resultUrl ?cfg) (JNum 42)"
  let ?get = "Request ''GET'' ?su None"
  let ?w0 = "[LogInfo ''Starting job on queue'', Request ''POST'' (queryEndpoint ?cfg) (Some (JObj ?p))]"
  let ?pending = "\<lparr>status = 200, content = [], json_of = Some (JObj [(''status'', JStr ''pending'')])\<rparr>"
  let ?finished = "\<lparr>status = 200, content = [], json_of = Some (JObj [(''status'', JStr ''finished'')])\<rparr>"
  have f0: "fetch ?cfg ?srv ''POST'' (queryEndpoint ?cfg) 0 (Some (JObj ?p))
              [LogInfo ''Starting job on queue'']
            = (Inr \<lparr>status = 200, content = [], json_of = Some (JObj [(''id'', JNum 42)])\<rparr>, ?w0)"
    by (simp add: fetch.simps script_def httpJson_def)
  have f1: "fetch ?cfg ?srv ''GET'' ?su 0 None ?w0 = (Inr ?pending, ?w0 @ [?get])"
    by (simp add: fetch.simps script_def httpJson_def)
  have f2: "fetch ?cfg ?srv ''GET'' ?su 0 None (?w0 @ [?get, Sleep 5])
            = (Inr ?pending, ?w0 @ [?get, Sleep 5, ?get])"
    by (simp add: fetch.simps script_def httpJson_def)
  have f3: "fetch ?cfg ?srv ''GET'' ?su 0 None (?w0 @ [?get, Sleep 5, ?get, Sleep 5])
            = (Inr ?finished, ?w0 @ [?get, Sleep 5, ?get, Sleep 5, ?get])"
    by (simp add: fetch.simps script_def httpJson_def)
  have f4: "fetch ?cfg ?srv ''GET'' ?ru 0 None (?w0 @ [?get, Sleep 5, ?get, Sleep 5, ?get])
            = (Inr \<lparr>status = 200, content = ''bytes'', json_of = None\<rparr>,
               ?w0 @ [?get, Sleep 5, ?get, Sleep 5, ?get, Request ''GET'' ?ru None])"
    by (simp add: fetch.simps script_def http_def)
  have p1: "poll ?cfg ?srv ?su ?w0 = poll ?cfg ?srv ?su (?w0 @ [?get, Sleep 5])"
    using f1 poll_status_cases [where cfg = ?cfg and srv = ?srv and u = ?su and w = ?w0
        and r = ?pending and w' = "?w0 @ [?get]" and j = "JObj [(''status'', JStr ''pending'')]"
        and st = "JStr ''pending''"]
    by (simp add: terminal_def)
  have p2: "poll ?cfg ?srv ?su (?w0 @ [?get, Sleep 5])
            = poll ?cfg ?srv ?su (?w0 @ [?get, Sleep 5, ?get, Sleep 5])"
    using f2 poll_status_cases [where cfg = ?cfg and srv = ?srv and u = ?su
        and w = "?w0 @ [?get, Sleep 5]"
        and r = ?pending and w' = "?w0 @ [?get, Sleep 5, ?get]"
        and j = "JObj [(''status'', JStr ''pending'')]" and st = "JStr ''pending''"]
    by (simp add: terminal_def)
  have p3: "poll ?cfg ?srv ?su (?w0 @ [?get, Sleep 5, ?get, Sleep 5])
            = Some (Inr (), ?w0 @ [?get, Sleep 5, ?get, Sleep 5, ?get])"
    using f3 poll_status_cases [where cfg = ?cfg and srv = ?srv and u = ?su
        and w = "?w0 @ [?get, Sleep 5, ?get, Sleep 5]"
        and r = ?finished and w' = "?w0 @ [?get, Sleep 5, ?get, Sleep 5, ?get]"
        and j = "JObj [(''status'', JStr ''finished'')]" and st = "JStr ''finished''"]
    by simp
  have run: "runOnJobQueue ?cfg ?srv [(''format'', JStr ''json'')] []
      = Some (fst (fetch ?cfg ?srv ''GET'' ?ru 0 None (?w0 @ [?get, Sleep 5, ?get, Sleep 5, ?get])),
              ?p,
              snd (fetch ?cfg ?srv ''GET'' ?ru 0 None (?w0 @ [?get, Sleep 5, ?get, Sleep 5, ?get])))"
    using f0 p1 p2 p3
      poll_status_cases [where cfg = ?cfg and srv = ?srv and params = "[(''format'', JStr ''json'')]"
        and v = "[]" and ?r0.0 = "\<lparr>status = 200, content = [], json_of = Some (JObj [(''id'', JNum 42)])\<rparr>"
        and ?v0.0 = ?w0 and ?j0.0 = "JObj [(''id'', JNum 42)]" and jobId = "JNum 42"
        and v' = "?w0 @ [?get, Sleep 5, ?get, Sleep 5, ?get]"]
    by simp
  let ?deleted = "\<lparr>status = 200, content = [], json_of = Some (JObj [(''status'', JStr ''deleted'')])\<rparr>"
  let ?failed = "\<lparr>status = 200, content = [],
      json_of = Some (JObj [(''status'', JStr ''error''), (''error_message'', JStr ''Y'')])\<rparr>"
  have f5: "fetch ?cfg (script [httpJson 200 [(''status'', JStr ''deleted'')]]) ''GET'' ?su 0 None []
            = (Inr ?deleted, [?get])"
    by (simp add: fetch.simps script_def httpJson_def)
  have f6: "fetch ?cfg
              (script [httpJson 200 [(''status'', JStr ''error''), (''error_message'', JStr ''Y'')]])
              ''GET'' ?su 0 None []
            = (Inr ?failed, [?get])"
    by (simp add: fetch.simps script_def httpJson_def)
  have p5: "poll ?cfg (script [httpJson 200 [(''status'', JStr ''deleted'')]]) ?su []
            = Some (Inl (ApiError (JStr ''Job was canceled'')), [?get])"
    using f5 poll_status_cases [where cfg = ?cfg
        and srv = "script [httpJson 200 [(''status'', JStr ''deleted'')]]" and u = ?su and w = "[]"
        and r = ?deleted and w' = "[?get]" and j = "JObj [(''status'', JStr ''deleted'')]"
        and st = "JStr ''deleted''"]
    by simp
  have p6: "poll ?cfg
              (script [httpJson 200 [(''status'', JStr ''error''), (''error_message'', JStr ''Y'')]])
              ?su []
            = Some (Inl (ApiError (JStr ''Y'')), [?get])"
    using f6 poll_status_cases [where cfg = ?cfg
        and srv = "script [httpJson 200 [(''status'', JStr ''error''), (''error_message'', JStr ''Y'')]]"
        and u = ?su and w = "[]" and r = ?failed and w' = "[?get]"
        and j = "JObj [(''status'', JStr ''error''), (''error_message'', JStr ''Y'')]"
        and st = "JStr ''error''"]
    by simp
  show ?thesis
    unfolding run f4 p5 p6 by simp
qed

text \<open>
  C6. The submit phase posts the caller's \<open>params\<close>, with \<open>runOnJobQueue\<close> set to
  \<open>True\<close>, to the query endpoint; only POST requests to that endpoint and sleeps of the
  retry follow in the submit's trace. When the fetch fails, when the response does not
  decode, or when its JSON has no field \<open>id\<close> (an object without the key, or a JSON value
  that is no object), the run fails there: its trace is the submit's trace, so no status
  or result request was sent. Otherwise the value of \<open>id\<close> keys the status and result
  URLs of the rest of the run.
\<close>

theorem submit_phase:
  assumes "fetch cfg srv ''POST'' (queryEndpoint cfg) 0
             (Some (JObj (AList.update ''runOnJobQueue'' (JBool True) params)))
             (w @ [LogInfo ''Starting job on queue'']) = (res, w')"
  shows "(\<exists>es. w' = w @ LogInfo ''Starting job on queue''
                    # Request ''POST'' (queryEndpoint cfg)
                        (Some (JObj (AList.update ''runOnJobQueue'' (JBool True) params)))
                    # es
             \<and> set es \<subseteq> {Sleep 1, Request ''POST'' (queryEndpoint cfg) None})
       \<and> (\<forall>e. res = Inl e \<longrightarrow>
             runOnJobQueue cfg srv params w
               = Some (Inl e, AList.update ''runOnJobQueue'' (JBool True) params, w'))
       \<and> (\<forall>r. res = Inr r \<and> json_of r = None \<longrightarrow>
             runOnJobQueue cfg srv params w
               = Some (Inl JSONDecodeError,
                       AList.update ''runOnJobQueue'' (JBool True) params, w'))
       \<and> (\<forall>r j. res = Inr r \<and> json_of r = Some j
                 \<and> (\<forall>d. j = JObj d \<longrightarrow> map_of d ''id'' = None) \<longrightarrow>
             runOnJobQueue cfg srv params w
               = Some (Inl (if (\<exists>d. j = JObj d) then KeyError ''id'' else TypeError),
                       AList.update ''runOnJobQueue'' (JBool True) params, w'))
       \<and> (\<forall>r j jobId. res = Inr r \<and> json_of r = Some j \<and> subscript j ''id'' = Inr jobId \<longrightarrow>
             runOnJobQueue cfg srv params w =
               (case poll cfg srv (Format (statusUrl cfg) jobId) w' of
                  None \<Rightarrow> None
                | Some (Inl e, w2) \<Rightarrow>
                    Some (Inl e, AList.update ''runOnJobQueue'' (JBool True) params, w2)
                | Some (Inr b, w2) \<Rightarrow>
                    Some (fst (fetch cfg srv ''GET'' (Format (resultUrl cfg) jobId) 0 None w2),
                          AList.update ''runOnJobQueue'' (JBool True) params,
                          snd (fetch cfg srv ''GET'' (Format (resultUrl cfg) jobId) 0 None w2))))"
proof (intro conjI allI impI)
  let ?p = "AList.update ''runOnJobQueue'' (JBool True) params"
  from fetch_trace [of cfg srv "''POST''" "queryEndpoint cfg" 0 "Some (JObj ?p)"
      "w @ [LogInfo ''Starting job on queue'']"] assms
  show "\<exists>es. w' = w @ LogInfo ''Starting job on queue''
                    # Request ''POST'' (queryEndpoint cfg) (Some (JObj ?p)) # es
             \<and> set es \<subseteq> {Sleep 1, Request ''POST'' (queryEndpoint cfg) None}"
    by simp
next
  fix e assume "res = Inl e"
  with assms show "runOnJobQueue cfg srv params w
               = Some (Inl e, AList.update ''runOnJobQueue'' (JBool True) params, w')"
    by (simp add: runOnJobQueue_def queryEndpoint_def Let_def)
next
  fix r assume "res = Inr r \<and> json_of r = None"
  with assms show "runOnJobQueue cfg srv params w
               = Some (Inl JSONDecodeError,
                       AList.update ''runOnJobQueue'' (JBool True) params, w')"
    by (simp add: runOnJobQueue_def queryEndpoint_def Let_def)
next
  fix r j assume a: "res = Inr r \<and> json_of r = Some j
                 \<and> (\<forall>d. j = JObj d \<longrightarrow> map_of d ''id'' = None)"
  then have s: "subscript j ''id'' = Inl (if (\<exists>d. j = JObj d) then KeyError ''id'' else TypeError)"
    by (simp add: subscript_lacks)
  from assms a show "runOnJobQueue cfg srv params w
               = Some (Inl (if (\<exists>d. j = JObj d) then KeyError ''id'' else TypeError),
                       AList.update ''runOnJobQueue'' (JBool True) params, w')"
    by (simp add: runOnJobQueue_def queryEndpoint_def Let_def s del: subscript.simps)
next
  fix r j jobId assume "res = Inr r \<and> json_of r = Some j \<and> subscript j ''id'' = Inr jobId"
  with assms show "runOnJobQueue cfg srv params w =
               (case poll cfg srv (Format (statusUrl cfg) jobId) w' of
                  None \<Rightarrow> None
                | Some (Inl e, w2) \<Rightarrow>
                    Some (Inl e, AList.update ''runOnJobQueue'' (JBool True) params, w2)
                | Some (Inr b, w2) \<Rightarrow>
                    Some (fst (fetch cfg srv ''GET'' (Format (resultUrl cfg) jobId) 0 None w2),
                          AList.update ''runOnJobQueue'' (JBool True) params,
                          snd (fetch cfg srv ''GET'' (Format (resultUrl cfg) jobId) 0 None w2)))"
    by (simp add: run_after_submit)
qed

theorem submit_phase_witness:
  "runOnJobQueue (ClientConfig ''key'') (script [http 404 ''no such page''])
       [(''format'', JStr ''json'')] []
     = Some (Inl (UnexpectedError ''no such page''),
             [(''format'', JStr ''json''), (''runOnJobQueue'', JBool True)],
             [LogInfo ''Starting job on queue'',
              Request ''POST'' (queryEndpoint (ClientConfig ''key''))
                (Some (JObj [(''format'', JStr ''json''), (''runOnJobQueue'', JBool True)]))])
   \<and> runOnJobQueue (ClientConfig ''key'') (script [httpJson 200 [(''job'', JNum 42)]])
       [(''format'', JStr ''json'')] []
     = Some (Inl (KeyError ''id''),
             [(''format'', JStr ''json''), (''runOnJobQueue'', JBool True)],
             [LogInfo ''Starting job on queue'',
              Request ''POST'' (queryEndpoint (ClientConfig ''key''))
                (Some (JObj [(''format'', JStr ''json''), (''runOnJobQueue'', JBool True)]))])
   \<and> runOnJobQueue (ClientConfig ''key'') (script [httpValue 200 (JArr [JNum 42])])
       [(''format'', JStr ''json'')] []
     = Some (Inl TypeError,
             [(''format'', JStr ''json''), (''runOnJobQueue'', JBool True)],
             [LogInfo ''Starting job on queue'',
              Request ''POST'' (queryEndpoint (ClientConfig ''key''))
                (Some (JObj [(''format'', JStr ''json''), (''runOnJobQueue'', JBool True)]))])
   \<and> runOnJobQueue (ClientConfig ''key'') (script [http 200 ''queued''])
       [(''format'', JStr ''json'')] []
     = Some (Inl JSONDecodeError,
             [(''format'', JStr ''json''), (''runOnJobQueue'', JBool True)],
             [LogInfo ''Starting job on queue'',
              Request ''POST'' (queryEndpoint (ClientConfig ''key''))
                (Some (JObj [(''format'', JStr ''json''), (''runOnJobQueue'', JBool True)]))])
   \<and> runOnJobQueue (ClientConfig ''key'')
       (script [httpJson 200 [(''id'', JStr ''42'')], httpJson 200 [(''status'', JStr ''deleted'')]])
       [(''format'', JStr ''json'')] []
     = Some (Inl (ApiError (JStr ''Job was canceled'')),
             [(''format'', JStr ''json''), (''runOnJobQueue'', JBool True)],
             [LogInfo ''Starting job on queue'',
              Request ''POST'' (queryEndpoint (ClientConfig ''key''))
                (Some (JObj [(''format'', JStr ''json''), (''runOnJobQueue'', JBool True)])),
              Request ''GET'' (Format (statusUrl (ClientConfig ''key'')) (JStr ''42'')) None])"
proof -
  let ?cfg = "ClientConfig ''key''"
  let ?p = "[(''format'', JStr ''json''), (''runOnJobQueue'', JBool True)]"
  let ?w = "[LogInfo ''Starting job on queue'',
             Request ''POST'' (queryEndpoint ?cfg) (Some (JObj ?p))]"
  have f1: "fetch ?cfg (script [http 404 ''no such page'']) ''POST'' (queryEndpoint ?cfg) 0
              (Some (JObj (AList.update ''runOnJobQueue'' (JBool True) [(''format'', JStr ''json'')])))
              ([] @ [LogInfo ''Starting job on queue''])
            = (Inl (UnexpectedError ''no such page''), ?w)"
    by (simp add: fetch.simps script_def http_def ClientConfig_def)
  have f2: "fetch ?cfg (script [httpJson 200 [(''job'', JNum 42)]]) ''POST'' (queryEndpoint ?cfg) 0
              (Some (JObj (AList.update ''runOnJobQueue'' (JBool True) [(''format'', JStr ''json'')])))
              ([] @ [LogInfo ''Starting job on queue''])
            = (Inr \<lparr>status = 200, content = [], json_of = Some (JObj [(''job'', JNum 42)])\<rparr>, ?w)"
    by (simp add: fetch.simps script_def httpJson_def)
  have f2a: "fetch ?cfg (script [httpValue 200 (JArr [JNum 42])]) ''POST'' (queryEndpoint ?cfg) 0
              (Some (JObj (AList.update ''runOnJobQueue'' (JBool True) [(''format'', JStr ''json'')])))
              ([] @ [LogInfo ''Starting job on queue''])
            = (Inr \<lparr>status = 200, content = [], json_of = Some (JArr [JNum 42])\<rparr>, ?w)"
    by (simp add: fetch.simps script_def httpValue_def)
  have f2b: "fetch ?cfg (script [http 200 ''queued'']) ''POST'' (queryEndpoint ?cfg) 0
              (Some (JObj (AList.update ''runOnJobQueue'' (JBool True) [(''format'', JStr ''json'')])))
              ([] @ [LogInfo ''Starting job on queue''])
            = (Inr \<lparr>status = 200, content = ''queued'', json_of = None\<rparr>, ?w)"
    by (simp add: fetch.simps script_def http_def)
  let ?s3 = "script [httpJson 200 [(''id'', JStr ''42'')], httpJson 200 [(''status'', JStr ''deleted'')]]"
  have f3: "fetch ?cfg ?s3 ''POST'' (queryEndpoint ?cfg) 0
              (Some (JObj (AList.update ''runOnJobQueue'' (JBool True) [(''format'', JStr ''json'')])))
              ([] @ [LogInfo ''Starting job on queue''])
            = (Inr \<lparr>status = 200, content = [], json_of = Some (JObj [(''id'', JStr ''42'')])\<rparr>, ?w)"
    by (simp add: fetch.simps script_def httpJson_def)
  have f4: "fetch ?cfg ?s3 ''GET'' (Format (statusUrl ?cfg) (JStr ''42'')) 0 None ?w
            = (Inr \<lparr>status = 200, content = [],
                     json_of = Some (JObj [(''status'', JStr ''deleted'')])\<rparr>,
               ?w @ [Request ''GET'' (Format (statusUrl ?cfg) (JStr ''42'')) None])"
    by (simp add: fetch.simps script_def httpJson_def)
  have p: "poll ?cfg ?s3 (Format (statusUrl ?cfg) (JStr ''42'')) ?w
            = Some (Inl (ApiError (JStr ''Job was canceled'')),
                    ?w @ [Request ''GET'' (Format (statusUrl ?cfg) (JStr ''42'')) None])"
    by (subst poll.simps) (simp add: f4)
  from submit_phase [OF f1] submit_phase [OF f2] submit_phase [OF f2a] submit_phase [OF f2b]
    submit_phase [OF f3] p
  show ?thesis by simp
qed

subsection \<open>The polling loop has no bound\<close>

lemma fetch_direct_success:
  assumes "srv (w @ [Request meth url json]) = Reply r"
      and "200 \<le> status r" and "status r \<le> 299"
  shows "fetch cfg srv meth url retryCount json w = (Inr r, w @ [Request meth url json])"
  using assms by (subst fetch.simps) (simp add: Let_def)

lemma pollAgain_cases:
  "\<not> pollAgain cfg srv u w \<longleftrightarrow>
     (\<exists>e w'. fetch cfg srv ''GET'' u 0 None w = (Inl e, w'))
   \<or> (\<exists>r w'. fetch cfg srv ''GET'' u 0 None w = (Inr r, w')
         \<and> (json_of r = None \<or> (\<exists>j e. json_of r = Some j \<and> subscript j ''status'' = Inl e)))
   \<or> (\<exists>r w' j st. fetch cfg srv ''GET'' u 0 None w = (Inr r, w') \<and> json_of r = Some j
         \<and> subscript j ''status'' = Inr st \<and> terminal st)"
  by (cases "fetch cfg srv ''GET'' u 0 None w")
     (auto simp: pollAgain_def split: sum.splits option.splits)

lemma poll_skip:
  "(\<forall>i<n. pollAgain cfg srv u (pollStart cfg srv u i w))
     \<Longrightarrow> poll cfg srv u w = poll cfg srv u (pollStart cfg srv u n w)"
proof (induction n arbitrary: w)
  case 0
  show ?case by simp
next
  case (Suc n)
  let ?w1 = "snd (fetch cfg srv ''GET'' u 0 None w) @ [Sleep 5]"
  from Suc.prems have "pollAgain cfg srv u (pollStart cfg srv u 0 w)" by blast
  then have first: "poll cfg srv u w = poll cfg srv u ?w1"
    by (simp add: poll_again)
  have "\<forall>i<n. pollAgain cfg srv u (pollStart cfg srv u i ?w1)"
  proof (intro allI impI)
    fix i assume "i < n"
    then have "Suc i < Suc n" by simp
    with Suc.prems have "pollAgain cfg srv u (pollStart cfg srv u (Suc i) w)" by blast
    then show "pollAgain cfg srv u (pollStart cfg srv u i ?w1)" by simp
  qed
  from Suc.IH [OF this] first show ?case by simp
qed

text \<open>
  C7. The loop has no iteration bound: against a server whose every reply is a 2xx
  response with a status that is not terminal, it never returns. It returns exactly when
  some poll it performs (every earlier poll having read a status that is not terminal)
  ends in one of three ways: its fetch fails, it reads a terminal status, or its
  response has no readable status (the body does not decode, or has no \<open>status\<close> to
  look up). Once the submit has produced a job id, the run returns exactly when its
  polling loop does, and an error that ends the loop is the error of the run. A poll
  whose fetch fails ends the loop with the error of the fetch, a poll whose response
  does not decode with the decoding error, a poll whose JSON has no \<open>status\<close> with the
  error of the lookup.
\<close>

theorem poll_unbounded:
  "((\<forall>h. \<exists>r j st. srv h = Reply r \<and> 200 \<le> status r \<and> status r \<le> 299
          \<and> json_of r = Some j \<and> subscript j ''status'' = Inr st \<and> \<not> terminal st)
     \<longrightarrow> poll cfg srv u w = None)
   \<and> (poll cfg srv u w \<noteq> None \<longleftrightarrow>
        (\<exists>k. (\<forall>i<k. pollAgain cfg srv u (pollStart cfg srv u i w))
           \<and> ((\<exists>e w'. fetch cfg srv ''GET'' u 0 None (pollStart cfg srv u k w) = (Inl e, w'))
             \<or> (\<exists>r w' j st. fetch cfg srv ''GET'' u 0 None (pollStart cfg srv u k w) = (Inr r, w')
                   \<and> json_of r = Some j \<and> subscript j ''status'' = Inr st \<and> terminal st)
             \<or> (\<exists>r w'. fetch cfg srv ''GET'' u 0 None (pollStart cfg srv u k w) = (Inr r, w')
                   \<and> (json_of r = None
                      \<or> (\<exists>j e. json_of r = Some j \<and> subscript j ''status'' = Inl e))))))
   \<and> (fetch cfg srv ''POST'' (queryEndpoint cfg) 0
         (Some (JObj (AList.update ''runOnJobQueue'' (JBool True) params)))
         (v @ [LogInfo ''Starting job on queue'']) = (Inr r0, v0)
      \<and> json_of r0 = Some j0 \<and> subscript j0 ''id'' = Inr jobId
     \<longrightarrow> (runOnJobQueue cfg srv params v = None
           \<longleftrightarrow> poll cfg srv (Format (statusUrl cfg) jobId) v0 = None)
       \<and> (\<forall>e x. poll cfg srv (Format (statusUrl cfg) jobId) v0 = Some (Inl e, x)
             \<longrightarrow> runOnJobQueue cfg srv params v
                 = Some (Inl e, AList.update ''runOnJobQueue'' (JBool True) params, x)))
   \<and> ((\<forall>i<n. pollAgain cfg srv u (pollStart cfg srv u i w)) \<longrightarrow>
         (\<forall>e x. fetch cfg srv ''GET'' u 0 None (pollStart cfg srv u n w) = (Inl e, x)
             \<longrightarrow> poll cfg srv u w = Some (Inl e, x))
       \<and> (\<forall>r x. fetch cfg srv ''GET'' u 0 None (pollStart cfg srv u n w) = (Inr r, x)
               \<and> json_of r = None
             \<longrightarrow> poll cfg srv u w = Some (Inl JSONDecodeError, x))
       \<and> (\<forall>r x j e. fetch cfg srv ''GET'' u 0 None (pollStart cfg srv u n w) = (Inr r, x)
               \<and> json_of r = Some j \<and> subscript j ''status'' = Inl e
             \<longrightarrow> poll cfg srv u w = Some (Inl e, x)))"
proof (intro conjI impI allI)
  assume pending: "\<forall>h. \<exists>r j st. srv h = Reply r \<and> 200 \<le> status r \<and> status r \<le> 299
          \<and> json_of r = Some j \<and> subscript j ''status'' = Inr st \<and> \<not> terminal st"
  have again: "pollAgain cfg srv u v" for v
  proof -
    from pending obtain r j st where
      r: "srv (v @ [Request ''GET'' u None]) = Reply r" "200 \<le> status r" "status r \<le> 299"
      and j: "json_of r = Some j" "subscript j ''status'' = Inr st" "\<not> terminal st"
      by blast
    from r have "fetch cfg srv ''GET'' u 0 None v = (Inr r, v @ [Request ''GET'' u None])"
      by (rule fetch_direct_success [where srv = srv and w = v])
    with j show ?thesis
      by (simp add: pollAgain_def)
  qed
  show "poll cfg srv u w = None"
  proof (rule ccontr)
    assume "poll cfg srv u w \<noteq> None"
    then obtain y where "poll cfg srv u w = Some y" by blast
    from poll_Some_exit [OF this] again show False by blast
  qed
next
  let ?exit = "\<lambda>k. \<not> pollAgain cfg srv u (pollStart cfg srv u k w)"
  have "poll cfg srv u w \<noteq> None \<longleftrightarrow> (\<exists>k. ?exit k)"
    using poll_Some_exit [of cfg srv u w] poll_returns_at [of cfg srv u _ w] by blast
  also have "\<dots> \<longleftrightarrow> (\<exists>k. ?exit k \<and> (\<forall>i<k. \<not> ?exit i))"
    by (rule exists_least_iff)
  also have "\<dots> \<longleftrightarrow> (\<exists>k. (\<forall>i<k. pollAgain cfg srv u (pollStart cfg srv u i w)) \<and> ?exit k)"
    by auto
  finally show "poll cfg srv u w \<noteq> None \<longleftrightarrow>
        (\<exists>k. (\<forall>i<k. pollAgain cfg srv u (pollStart cfg srv u i w))
           \<and> ((\<exists>e w'. fetch cfg srv ''GET'' u 0 None (pollStart cfg srv u k w) = (Inl e, w'))
             \<or> (\<exists>r w' j st. fetch cfg srv ''GET'' u 0 None (pollStart cfg srv u k w) = (Inr r, w')
                   \<and> json_of r = Some j \<and> subscript j ''status'' = Inr st \<and> terminal st)
             \<or> (\<exists>r w'. fetch cfg srv ''GET'' u 0 None (pollStart cfg srv u k w) = (Inr r, w')
                   \<and> (json_of r = None
                      \<or> (\<exists>j e. json_of r = Some j \<and> subscript j ''status'' = Inl e)))))"
    unfolding pollAgain_cases [of cfg srv u "pollStart cfg srv u _ w"] by blast
next
  assume "fetch cfg srv ''POST'' (queryEndpoint cfg) 0
         (Some (JObj (AList.update ''runOnJobQueue'' (JBool True) params)))
         (v @ [LogInfo ''Starting job on queue'']) = (Inr r0, v0)
      \<and> json_of r0 = Some j0 \<and> subscript j0 ''id'' = Inr jobId"
  then have "runOnJobQueue cfg srv params v =
           (case poll cfg srv (Format (statusUrl cfg) jobId) v0 of
              None \<Rightarrow> None
            | Some (Inl e, w2) \<Rightarrow>
                Some (Inl e, AList.update ''runOnJobQueue'' (JBool True) params, w2)
            | Some (Inr b, w2) \<Rightarrow>
                Some (fst (fetch cfg srv ''GET'' (Format (resultUrl cfg) jobId) 0 None w2),
                      AList.update ''runOnJobQueue'' (JBool True) params,
                      snd (fetch cfg srv ''GET'' (Format (resultUrl cfg) jobId) 0 None w2)))"
    by (simp add: run_after_submit [of cfg srv params v r0 v0 j0 jobId])
  then show "runOnJobQueue cfg srv params v = None
           \<longleftrightarrow> poll cfg srv (Format (statusUrl cfg) jobId) v0 = None"
    by (simp split: option.splits prod.splits sum.splits)
next
  fix e x
  assume "fetch cfg srv ''POST'' (queryEndpoint cfg) 0
         (Some (JObj (AList.update ''runOnJobQueue'' (JBool True) params)))
         (v @ [LogInfo ''Starting job on queue'']) = (Inr r0, v0)
      \<and> json_of r0 = Some j0 \<and> subscript j0 ''id'' = Inr jobId"
    and "poll cfg srv (Format (statusUrl cfg) jobId) v0 = Some (Inl e, x)"
  then show "runOnJobQueue cfg srv params v
                 = Some (Inl e, AList.update ''runOnJobQueue'' (JBool True) params, x)"
    by (simp add: run_after_submit [of cfg srv params v r0 v0 j0 jobId])
next
  fix e x
  assume "\<forall>i<n. pollAgain cfg srv u (pollStart cfg srv u i w)"
    and "fetch cfg srv ''GET'' u 0 None (pollStart cfg srv u n w) = (Inl e, x)"
  then show "poll cfg srv u w = Some (Inl e, x)"
    by (simp add: poll_skip, subst poll.simps) simp
next
  fix r x
  assume "\<forall>i<n. pollAgain cfg srv u (pollStart cfg srv u i w)"
    and "fetch cfg srv ''GET'' u 0 None (pollStart cfg srv u n w) = (Inr r, x)
               \<and> json_of r = None"
  then show "poll cfg srv u w = Some (Inl JSONDecodeError, x)"
    by (simp add: poll_skip, subst poll.simps) simp
next
  fix r x j e
  assume "\<forall>i<n. pollAgain cfg srv u (pollStart cfg srv u i w)"
    and "fetch cfg srv ''GET'' u 0 None (pollStart cfg srv u n w) = (Inr r, x)
               \<and> json_of r = Some j \<and> subscript j ''status'' = Inl e"
  then show "poll cfg srv u w = Some (Inl e, x)"
    by (simp add: poll_skip, subst poll.simps) simp
qed

theorem poll_unbounded_witness:
  "poll (ClientConfig ''key'') alwaysPending (Format ''http://h/status/%s'' (JNum 42)) [] = None
   \<and> poll (ClientConfig ''key'') (finishesAfter 2) (Format ''http://h/status/%s'' (JNum 42)) []
       \<noteq> None
   \<and> runOnJobQueue (ClientConfig ''key'') alwaysPending [] [] = None
   \<and> poll (ClientConfig ''key'') (script []) (Format ''http://h/status/%s'' (JNum 42)) []
       = Some (Inl (ClientError ''refused''),
               [Request ''GET'' (Format ''http://h/status/%s'' (JNum 42)) None])
   \<and> poll (ClientConfig ''key'') (script [http 200 ''busy''])
         (Format ''http://h/status/%s'' (JNum 42)) []
       = Some (Inl JSONDecodeError,
               [Request ''GET'' (Format ''http://h/status/%s'' (JNum 42)) None])
   \<and> poll (ClientConfig ''key'')
         (script [httpJson 200 [(''status'', JStr ''pending'')], httpJson 200 []])
         (Format ''http://h/status/%s'' (JNum 42)) []
       = Some (Inl (KeyError ''status''),
               [Request ''GET'' (Format ''http://h/status/%s'' (JNum 42)) None, Sleep 5,
                Request ''GET'' (Format ''http://h/status/%s'' (JNum 42)) None])
   \<and> runOnJobQueue (ClientConfig ''key'')
         (script [httpJson 200 [(''id'', JNum 42)], httpJson 200 []]) [] []
       = Some (Inl (KeyError ''status''), [(''runOnJobQueue'', JBool True)],
               [LogInfo ''Starting job on queue'',
                Request ''POST'' (queryEndpoint (ClientConfig ''key''))
                  (Some (JObj [(''runOnJobQueue'', JBool True)])),
                Request ''GET'' (Format (statusUrl (ClientConfig ''key'')) (JNum 42)) None])"
proof -
  let ?cfg = "ClientConfig ''key''"
  let ?u = "Format ''http://h/status/%s'' (JNum 42)"
  let ?get = "Request ''GET'' ?u None"
  let ?pending = "\<lparr>status = 200, content = [], json_of = Some (JObj [(''status'', JStr ''pending'')])\<rparr>"
  have pending: "\<forall>h. \<exists>r j st. alwaysPending h = Reply r \<and> 200 \<le> status r \<and> status r \<le> 299
          \<and> json_of r = Some j \<and> subscript j ''status'' = Inr st \<and> \<not> terminal st"
    by (simp add: alwaysPending_def httpJson_def terminal_def)
  have f0: "fetch ?cfg (finishesAfter 2) ''GET'' ?u 0 None [] = (Inr ?pending, [?get])"
    by (simp add: fetch.simps finishesAfter_def httpJson_def)
  have f1: "fetch ?cfg (finishesAfter 2) ''GET'' ?u 0 None [?get, Sleep 5]
      = (Inr ?pending, [?get, Sleep 5, ?get])"
    by (simp add: fetch.simps finishesAfter_def httpJson_def)
  have f2: "fetch ?cfg (finishesAfter 2) ''GET'' ?u 0 None [?get, Sleep 5, ?get, Sleep 5]
      = (Inr \<lparr>status = 200, content = [], json_of = Some (JObj [(''status'', JStr ''finished'')])\<rparr>,
         [?get, Sleep 5, ?get, Sleep 5, ?get])"
    by (simp add: fetch.simps finishesAfter_def httpJson_def)
  have s1: "pollStart ?cfg (finishesAfter 2) ?u (Suc 0) [] = [?get, Sleep 5]"
    by (simp add: f0)
  have s2: "pollStart ?cfg (finishesAfter 2) ?u (Suc (Suc 0)) [] = [?get, Sleep 5, ?get, Sleep 5]"
    by (simp add: f0 f1)
  have earlier: "\<forall>i<Suc (Suc 0).
      pollAgain ?cfg (finishesAfter 2) ?u (pollStart ?cfg (finishesAfter 2) ?u i [])"
  proof (intro allI impI)
    fix i :: nat assume "i < Suc (Suc 0)"
    then have "i = 0 \<or> i = Suc 0" by auto
    then show "pollAgain ?cfg (finishesAfter 2) ?u (pollStart ?cfg (finishesAfter 2) ?u i [])"
      using s1 by (auto simp: pollAgain_def f0 f1 terminal_def)
  qed
  have third: "\<exists>r w' j st. fetch ?cfg (finishesAfter 2) ''GET'' ?u 0 None
                        (pollStart ?cfg (finishesAfter 2) ?u (Suc (Suc 0)) []) = (Inr r, w')
                   \<and> json_of r = Some j \<and> subscript j ''status'' = Inr st \<and> terminal st"
    unfolding s2 by (simp add: f2 terminal_def)
  from poll_unbounded [where srv = alwaysPending and cfg = ?cfg and u = ?u and w = "[]",
      THEN conjunct1] pending
  have a: "poll ?cfg alwaysPending ?u [] = None" by blast
  from poll_unbounded [where srv = "finishesAfter 2" and cfg = ?cfg and u = ?u and w = "[]",
      THEN conjunct2, THEN conjunct1] earlier third
  have b: "poll ?cfg (finishesAfter 2) ?u [] \<noteq> None" by blast
  let ?v0 = "[LogInfo ''Starting job on queue'',
              Request ''POST'' (queryEndpoint ?cfg) (Some (JObj [(''runOnJobQueue'', JBool True)]))]"
  have submit: "fetch ?cfg alwaysPending ''POST'' (queryEndpoint ?cfg) 0
         (Some (JObj (AList.update ''runOnJobQueue'' (JBool True) [])))
         ([] @ [LogInfo ''Starting job on queue''])
       = (Inr \<lparr>status = 200, content = [],
                json_of = Some (JObj [(''id'', JNum 42), (''status'', JStr ''pending'')])\<rparr>, ?v0)"
    by (simp add: fetch.simps alwaysPending_def httpJson_def)
  from poll_unbounded [where srv = alwaysPending and cfg = ?cfg
      and u = "Format (statusUrl ?cfg) (JNum 42)" and w = ?v0, THEN conjunct1] pending
  have c: "poll ?cfg alwaysPending (Format (statusUrl ?cfg) (JNum 42)) ?v0 = None" by blast
  from submit c
    poll_unbounded [where srv = alwaysPending and cfg = ?cfg and params = "[]" and v = "[]"
      and ?r0.0 = "\<lparr>status = 200, content = [],
                json_of = Some (JObj [(''id'', JNum 42), (''status'', JStr ''pending'')])\<rparr>"
      and ?v0.0 = ?v0 and ?j0.0 = "JObj [(''id'', JNum 42), (''status'', JStr ''pending'')]"
      and jobId = "JNum 42", THEN conjunct2, THEN conjunct2, THEN conjunct1]
  have d: "runOnJobQueue ?cfg alwaysPending [] [] = None" by simp
  have g1: "fetch ?cfg (script []) ''GET'' ?u 0 None [] = (Inl (ClientError ''refused''), [?get])"
    by (simp add: fetch.simps script_def)
  from g1
    poll_unbounded [where srv = "script []" and cfg = ?cfg and u = ?u and w = "[]" and n = 0,
      THEN conjunct2, THEN conjunct2, THEN conjunct2]
  have e1: "poll ?cfg (script []) ?u [] = Some (Inl (ClientError ''refused''), [?get])"
    by simp
  have g2: "fetch ?cfg (script [http 200 ''busy'']) ''GET'' ?u 0 None []
      = (Inr \<lparr>status = 200, content = ''busy'', json_of = None\<rparr>, [?get])"
    by (simp add: fetch.simps script_def http_def)
  from g2
    poll_unbounded [where srv = "script [http 200 ''busy'']" and cfg = ?cfg and u = ?u
      and w = "[]" and n = 0, THEN conjunct2, THEN conjunct2, THEN conjunct2]
  have e2: "poll ?cfg (script [http 200 ''busy'']) ?u [] = Some (Inl JSONDecodeError, [?get])"
    by simp
  let ?s3 = "script [httpJson 200 [(''status'', JStr ''pending'')], httpJson 200 []]"
  have g3: "fetch ?cfg ?s3 ''GET'' ?u 0 None [] = (Inr ?pending, [?get])"
    by (simp add: fetch.simps script_def httpJson_def)
  have g4: "fetch ?cfg ?s3 ''GET'' ?u 0 None [?get, Sleep 5]
      = (Inr \<lparr>status = 200, content = [], json_of = Some (JObj [])\<rparr>, [?get, Sleep 5, ?get])"
    by (simp add: fetch.simps script_def httpJson_def)
  have again3: "\<forall>i<Suc 0. pollAgain ?cfg ?s3 ?u (pollStart ?cfg ?s3 ?u i [])"
    by (simp add: pollAgain_def g3 terminal_def)
  have start3: "pollStart ?cfg ?s3 ?u (Suc 0) [] = [?get, Sleep 5]"
    by (simp add: g3)
  from again3 g4
    poll_unbounded [where srv = ?s3 and cfg = ?cfg and u = ?u and w = "[]" and n = "Suc 0",
      THEN conjunct2, THEN conjunct2, THEN conjunct2]
  have e3: "poll ?cfg ?s3 ?u [] = Some (Inl (KeyError ''status''), [?get, Sleep 5, ?get])"
    unfolding start3 by simp
  let ?s4 = "script [httpJson 200 [(''id'', JNum 42)], httpJson 200 []]"
  let ?su = "Format (statusUrl ?cfg) (JNum 42)"
  have g5: "fetch ?cfg ?s4 ''POST'' (queryEndpoint ?cfg) 0
         (Some (JObj (AList.update ''runOnJobQueue'' (JBool True) [])))
         ([] @ [LogInfo ''Starting job on queue''])
       = (Inr \<lparr>status = 200, content = [], json_of = Some (JObj [(''id'', JNum 42)])\<rparr>, ?v0)"
    by (simp add: fetch.simps script_def httpJson_def)
  have g6: "fetch ?cfg ?s4 ''GET'' ?su 0 None ?v0
       = (Inr \<lparr>status = 200, content = [], json_of = Some (JObj [])\<rparr>,
          ?v0 @ [Request ''GET'' ?su None])"
    by (simp add: fetch.simps script_def httpJson_def)
  from g6
    poll_unbounded [where srv = ?s4 and cfg = ?cfg and u = ?su and w = ?v0 and n = 0,
      THEN conjunct2, THEN conjunct2, THEN conjunct2]
  have e4: "poll ?cfg ?s4 ?su ?v0
       = Some (Inl (KeyError ''status''), ?v0 @ [Request ''GET'' ?su None])"
    by simp
  from g5 e4
    poll_unbounded [where srv = ?s4 and cfg = ?cfg and params = "[]" and v = "[]"
      and ?r0.0 = "\<lparr>status = 200, content = [], json_of = Some (JObj [(''id'', JNum 42)])\<rparr>"
      and ?v0.0 = ?v0 and ?j0.0 = "JObj [(''id'', JNum 42)]" and jobId = "JNum 42",
      THEN conjunct2, THEN conjunct2, THEN conjunct1]
  have e5: "runOnJobQueue ?cfg ?s4 [] []
       = Some (Inl (KeyError ''status''), [(''runOnJobQueue'', JBool True)],
               ?v0 @ [Request ''GET'' ?su None])"
    by simp
  from a b d e1 e2 e3 e5 show ?thesis by simp
qed

text \<open>
  A status endpoint that answers 200 with the empty JSON object: the first poll's fetch
  succeeds, the response has no status, and the loop ends there with \<open>KeyError\<close>.
\<close>

theorem poll_exit_counterexample:
  "fetch (ClientConfig ''key'') (script [httpJson 200 []]) ''GET''
       (Format ''http://h/status/%s'' (JNum 42)) 0 None []
     = (Inr \<lparr>status = 200, content = [], json_of = Some (JObj [])\<rparr>,
        [Request ''GET'' (Format ''http://h/status/%s'' (JNum 42)) None])
   \<and> subscript (JObj []) ''status'' = Inl (KeyError ''status'')
   \<and> poll (ClientConfig ''key'') (script [httpJson 200 []])
       (Format ''http://h/status/%s'' (JNum 42)) []
     = Some (Inl (KeyError ''status''),
             [Request ''GET'' (Format ''http://h/status/%s'' (JNum 42)) None])"
proof -
  have f: "fetch (ClientConfig ''key'') (script [httpJson 200 []]) ''GET''
       (Format ''http://h/status/%s'' (JNum 42)) 0 None []
     = (Inr \<lparr>status = 200, content = [], json_of = Some (JObj [])\<rparr>,
        [Request ''GET'' (Format ''http://h/status/%s'' (JNum 42)) None])"
    by (simp add: fetch.simps script_def httpJson_def)
  show ?thesis
    by (subst poll.simps) (simp add: f)
qed

subsection \<open>Escalation to the job queue\<close>

lemma run_result:
  assumes "runOnJobQueue cfg srv params w = Some (out, p, v)"
  shows "p = AList.update ''runOnJobQueue'' (JBool True) params
       \<and> jobQueueRuns v = jobQueueRuns w + 1"
proof -
  let ?p = "AList.update ''runOnJobQueue'' (JBool True) params"
  let ?w0 = "w @ [LogInfo ''Starting job on queue'']"
  obtain res w1 where f: "fetch cfg srv ''POST'' (queryEndpoint cfg) 0 (Some (JObj ?p)) ?w0 = (res, w1)"
    by (cases "fetch cfg srv ''POST'' (queryEndpoint cfg) 0 (Some (JObj ?p)) ?w0")
  have "jobQueueRuns w1 = jobQueueRuns ?w0"
    using fetch_runs [of cfg srv "''POST''" "queryEndpoint cfg" 0 "Some (JObj ?p)" ?w0] f by simp
  then have r1: "jobQueueRuns w1 = jobQueueRuns w + 1"
    by (simp add: jobQueueRuns_def)
  show ?thesis
  proof (cases res)
    case (Inl e)
    with assms f r1 show ?thesis
      by (simp add: runOnJobQueue_def queryEndpoint_def Let_def)
  next
    case (Inr r)
    show ?thesis
    proof (cases "json_of r")
      case None
      with Inr assms f r1 show ?thesis
        by (simp add: runOnJobQueue_def queryEndpoint_def Let_def)
    next
      case (Some j)
      show ?thesis
      proof (cases "subscript j ''id''")
        case (Inl e)
        with Some Inr assms f r1 show ?thesis
          by (simp add: runOnJobQueue_def queryEndpoint_def Let_def)
      next
        case (Inr jobId)
        note run = run_after_submit [OF f [unfolded \<open>res = Inr r\<close>] Some Inr]
        show ?thesis
        proof (cases "poll cfg srv (Format (statusUrl cfg) jobId) w1")
          case None
          with run assms show ?thesis by simp
        next
          case (Some y)
          obtain pr w2 where y: "y = (pr, w2)" by (cases y)
          from poll_runs [OF Some] y r1 have r2: "jobQueueRuns w2 = jobQueueRuns w + 1" by simp
          show ?thesis
          proof (cases pr)
            case (Inl e)
            with run assms Some y r2 show ?thesis by simp
          next
            case (Inr b)
            with run assms Some y
            have "p = ?p" "v = snd (fetch cfg srv ''GET'' (Format (resultUrl cfg) jobId) 0 None w2)"
              by simp_all
            with r2 show ?thesis by (simp add: fetch_runs)
          qed
        qed
      qed
    qed
  qed
qed

lemma query_cases:
  assumes "fetch cfg srv ''POST'' (queryEndpoint cfg) 0 (Some (JObj params)) w = (res, w')"
  shows "query cfg srv params body w =
     (if escalates cfg srv params body w then
        (case runOnJobQueue cfg srv params w' of
           None \<Rightarrow> None
         | Some (Inl e, p, v) \<Rightarrow> Some (Inl e, p, v)
         | Some (Inr r2, p, v) \<Rightarrow>
             Some ((case res of
                      Inl e \<Rightarrow> body r2
                    | Inr r \<Rightarrow> Inl (RuntimeError ''generator didn't stop after athrow()'')), p, v))
      else Some ((case res of Inl e \<Rightarrow> Inl e | Inr r \<Rightarrow> body r), params, w'))"
proof (cases res)
  case (Inl e)
  with assms show ?thesis
    by (cases e)
       (auto simp: query_def escalates_def queryEndpoint_def Let_def
             split: option.splits prod.splits sum.splits)
next
  case (Inr r)
  show ?thesis
  proof (cases "body r")
    case (Inl e)
    with Inr assms show ?thesis
      by (cases e)
         (auto simp: query_def escalates_def queryEndpoint_def Let_def
               split: option.splits prod.splits sum.splits)
  next
    case (Inr x)
    with \<open>res = Inr r\<close> assms show ?thesis
      by (simp add: query_def escalates_def queryEndpoint_def Let_def)
  qed
qed

lemma query_runs:
  assumes "query cfg srv params body w = Some (out, p, v)"
  shows "jobQueueRuns v = (if escalates cfg srv params body w
                           then jobQueueRuns w + 1 else jobQueueRuns w)"
proof -
  obtain res w' where f: "fetch cfg srv ''POST'' (queryEndpoint cfg) 0 (Some (JObj params)) w = (res, w')"
    by (cases "fetch cfg srv ''POST'' (queryEndpoint cfg) 0 (Some (JObj params)) w")
  have w': "jobQueueRuns w' = jobQueueRuns w"
    using fetch_runs [of cfg srv "''POST''" "queryEndpoint cfg" 0 "Some (JObj params)" w] f
    by simp
  show ?thesis
  proof (cases "escalates cfg srv params body w")
    case True
    with assms obtain out' where "runOnJobQueue cfg srv params w' = Some (out', p, v)"
      by (auto simp: query_cases [OF f] split: option.splits prod.splits sum.splits)
    from run_result [OF this] w' True show ?thesis by simp
  next
    case False
    with assms w' show ?thesis by (simp add: query_cases [OF f])
  qed
qed

text \<open>
  C1. The direct POST is answered 200, and the caller's block raises the \<open>ApiError\<close>
  with the sentinel message. The error is thrown into the generator at the \<open>yield\<close>
  inside the \<open>try\<close>, so \<open>query\<close> starts a job-queue run although the direct POST did
  not fail: it sets the flag in \<open>params\<close>, submits, polls and fetches the result, and
  the second \<open>yield\<close> ends the call with the \<open>RuntimeError\<close> of \<open>contextlib\<close>.
\<close>

theorem query_escalates_on_body_error:
  "fetch (ClientConfig ''key'')
       (script [http 200 ''direct'', httpJson 200 [(''id'', JNum 42)],
                httpJson 200 [(''status'', JStr ''finished'')], http 200 ''queued''])
       ''POST'' (queryEndpoint (ClientConfig ''key'')) 0
       (Some (JObj [(''format'', JStr ''json'')])) []
     = (Inr \<lparr>status = 200, content = ''direct'', json_of = None\<rparr>,
        [Request ''POST'' (queryEndpoint (ClientConfig ''key''))
           (Some (JObj [(''format'', JStr ''json'')]))])
   \<and> query (ClientConfig ''key'')
       (script [http 200 ''direct'', httpJson 200 [(''id'', JNum 42)],
                httpJson 200 [(''status'', JStr ''finished'')], http 200 ''queued''])
       [(''format'', JStr ''json'')]
       (\<lambda>response. Inl (ApiError (JStr sentinel)) :: error + response) []
     = Some (Inl (RuntimeError ''generator didn't stop after athrow()''),
             [(''format'', JStr ''json''), (''runOnJobQueue'', JBool True)],
             [Request ''POST'' (queryEndpoint (ClientConfig ''key''))
                (Some (JObj [(''format'', JStr ''json'')])),
              LogInfo ''Starting job on queue'',
              Request ''POST'' (queryEndpoint (ClientConfig ''key''))
                (Some (JObj [(''format'', JStr ''json''), (''runOnJobQueue'', JBool True)])),
              Request ''GET'' (Format (statusUrl (ClientConfig ''key'')) (JNum 42)) None,
              Request ''GET'' (Format (resultUrl (ClientConfig ''key'')) (JNum 42)) None])"
proof -
  let ?cfg = "ClientConfig ''key''"
  let ?srv = "script [http 200 ''direct'', httpJson 200 [(''id'', JNum 42)],
                httpJson 200 [(''status'', JStr ''finished'')], http 200 ''queued'']"
  let ?p = "[(''format'', JStr ''json''), (''runOnJobQueue'', JBool True)]"
  let ?post = "Request ''POST'' (queryEndpoint ?cfg) (Some (JObj [(''format'', JStr ''json'')]))"
  let ?su = "Format (statusUrl ?cfg) (JNum 42)"
  let ?ru = "Format (resultUrl ?cfg) (JNum 42)"
  let ?w1 = "[?post, LogInfo ''Starting job on queue'',
              Request ''POST'' (queryEndpoint ?cfg) (Some (JObj ?p))]"
  have f0: "fetch ?cfg ?srv ''POST'' (queryEndpoint ?cfg) 0 (Some (JObj [(''format'', JStr ''json'')])) []
      = (Inr \<lparr>status = 200, content = ''direct'', json_of = None\<rparr>, [?post])"
    by (simp add: fetch.simps script_def http_def)
  have f1: "fetch ?cfg ?srv ''POST'' (queryEndpoint ?cfg) 0
              (Some (JObj (AList.update ''runOnJobQueue'' (JBool True) [(''format'', JStr ''json'')])))
              ([?post] @ [LogInfo ''Starting job on queue''])
      = (Inr \<lparr>status = 200, content = [], json_of = Some (JObj [(''id'', JNum 42)])\<rparr>, ?w1)"
    by (simp add: fetch.simps script_def httpJson_def)
  have f2: "fetch ?cfg ?srv ''GET'' ?su 0 None ?w1
      = (Inr \<lparr>status = 200, content = [], json_of = Some (JObj [(''status'', JStr ''finished'')])\<rparr>,
         ?w1 @ [Request ''GET'' ?su None])"
    by (simp add: fetch.simps script_def httpJson_def)
  have f3: "fetch ?cfg ?srv ''GET'' ?ru 0 None (?w1 @ [Request ''GET'' ?su None])
      = (Inr \<lparr>status = 200, content = ''queued'', json_of = None\<rparr>,
         ?w1 @ [Request ''GET'' ?su None, Request ''GET'' ?ru None])"
    by (simp add: fetch.simps script_def http_def)
  have p: "poll ?cfg ?srv ?su ?w1 = Some (Inr (), ?w1 @ [Request ''GET'' ?su None])"
    by (subst poll.simps) (simp add: f2)
  have run: "runOnJobQueue ?cfg ?srv [(''format'', JStr ''json'')] [?post]
      = Some (Inr \<lparr>status = 200, content = ''queued'', json_of = None\<rparr>, ?p,
              ?w1 @ [Request ''GET'' ?su None, Request ''GET'' ?ru None])"
    using f1 p f3 by (simp add: run_after_submit [where r = "\<lparr>status = 200, content = [],
        json_of = Some (JObj [(''id'', JNum 42)])\<rparr>" and w' = ?w1
        and j = "JObj [(''id'', JNum 42)]" and jobId = "JNum 42"])
  have esc: "escalates ?cfg ?srv [(''format'', JStr ''json'')]
               (\<lambda>response. Inl (ApiError (JStr sentinel)) :: error + response) []"
    by (simp add: escalates_def f0)
  from f0 run esc show ?thesis
    by (simp add: query_cases [OF f0])
qed

text \<open>
  C9. A query that returns has begun at most one job-queue run, whatever the caller's
  block does. When the run that the sentinel started itself ends with the \<open>ApiError\<close> of
  the sentinel message, \<open>query\<close> returns that error, and the trace holds exactly one run
  more than before the call.
\<close>

theorem escalation_at_most_once:
  "(query cfg srv params body w = Some (out, p, v) \<longrightarrow> jobQueueRuns v \<le> jobQueueRuns w + 1)
   \<and> (fetch cfg srv ''POST'' (queryEndpoint cfg) 0 (Some (JObj params)) w
         = (Inl (ApiError (JStr sentinel)), w')
      \<and> runOnJobQueue cfg srv params w' = Some (Inl (ApiError (JStr sentinel)), p', v')
     \<longrightarrow> query cfg srv params body w = Some (Inl (ApiError (JStr sentinel)), p', v')
        \<and> jobQueueRuns v' = jobQueueRuns w + 1)"
proof (intro conjI impI)
  assume "query cfg srv params body w = Some (out, p, v)"
  from query_runs [OF this] show "jobQueueRuns v \<le> jobQueueRuns w + 1" by simp
next
  assume a: "fetch cfg srv ''POST'' (queryEndpoint cfg) 0 (Some (JObj params)) w
         = (Inl (ApiError (JStr sentinel)), w')
      \<and> runOnJobQueue cfg srv params w' = Some (Inl (ApiError (JStr sentinel)), p', v')"
  then show "query cfg srv params body w = Some (Inl (ApiError (JStr sentinel)), p', v')"
    by (simp add: query_cases [of cfg srv params w _ w'] escalates_def)
  from a have "jobQueueRuns w' = jobQueueRuns w"
    using fetch_runs [of cfg srv "''POST''" "queryEndpoint cfg" 0 "Some (JObj params)" w]
    by simp
  with a run_result [of cfg srv params w' _ p' v']
  show "jobQueueRuns v' = jobQueueRuns w + 1" by simp
qed

theorem escalation_at_most_once_witness:
  "query (ClientConfig ''key'')
       (script [httpJson 400 [(''error_message'', JStr sentinel)],
                httpJson 400 [(''error_message'', JStr sentinel)]])
       [] (Inr :: response \<Rightarrow> error + response) []
     = Some (Inl (ApiError (JStr sentinel)), [(''runOnJobQueue'', JBool True)],
             [Request ''POST'' (queryEndpoint (ClientConfig ''key'')) (Some (JObj [])),
              LogInfo ''Starting job on queue'',
              Request ''POST'' (queryEndpoint (ClientConfig ''key''))
                (Some (JObj [(''runOnJobQueue'', JBool True)]))])
   \<and> jobQueueRuns
         [Request ''POST'' (queryEndpoint (ClientConfig ''key'')) (Some (JObj [])),
          LogInfo ''Starting job on queue'',
          Request ''POST'' (queryEndpoint (ClientConfig ''key''))
            (Some (JObj [(''runOnJobQueue'', JBool True)]))] = 1"
proof -
  let ?cfg = "ClientConfig ''key''"
  let ?srv = "script [httpJson 400 [(''error_message'', JStr sentinel)],
                      httpJson 400 [(''error_message'', JStr sentinel)]]"
  let ?post = "Request ''POST'' (queryEndpoint ?cfg) (Some (JObj []))"
  let ?v = "[?post, LogInfo ''Starting job on queue'',
             Request ''POST'' (queryEndpoint ?cfg) (Some (JObj [(''runOnJobQueue'', JBool True)]))]"
  have f: "fetch ?cfg ?srv ''POST'' (queryEndpoint ?cfg) 0 (Some (JObj [])) []
            = (Inl (ApiError (JStr sentinel)), [?post])"
    by (simp add: fetch.simps script_def httpJson_def)
  have run: "runOnJobQueue ?cfg ?srv [] [?post]
     = Some (Inl (ApiError (JStr sentinel)), [(''runOnJobQueue'', JBool True)], ?v)"
    by (simp add: runOnJobQueue_def queryEndpoint_def fetch.simps script_def httpJson_def Let_def)
  from f run
    escalation_at_most_once [where cfg = ?cfg and srv = ?srv and params = "[]" and w = "[]"
      and body = "Inr :: response \<Rightarrow> error + response"
      and w' = "[?post]" and p' = "[(''runOnJobQueue'', JBool True)]" and v' = ?v
      and out = "Inl (ApiError (JStr sentinel))" and p = "[(''runOnJobQueue'', JBool True)]"
      and v = ?v]
  show ?thesis by (simp add: jobQueueRuns_def)
qed

subsection \<open>The caller's dictionary\<close>

lemma fetch_extends: "\<exists>es. snd (fetch cfg srv meth url retryCount json w) = w @ es"
  using fetch_trace [of cfg srv meth url retryCount json w] by auto

lemma poll_extends:
  assumes "poll cfg srv u w = Some y"
  shows "\<exists>es. snd y = w @ es"
proof (rule poll.raw_induct
    [where P = "\<lambda>cfg srv u w y. \<exists>es. snd y = w @ es", OF _ assms], goal_cases)
  case (1 poll' cfg srv u w y)
  obtain es where es: "snd (fetch cfg srv ''GET'' u 0 None w) = w @ es"
    using fetch_extends by blast
  show ?case
  proof (cases "pollAgain cfg srv u w")
    case False
    with 1(2) have "snd y = snd (fetch cfg srv ''GET'' u 0 None w)"
      by (auto simp: pollAgain_def terminal_def split: prod.splits sum.splits option.splits if_splits)
    with es show ?thesis by simp
  next
    case True
    with 1(2) have "poll' cfg srv u (snd (fetch cfg srv ''GET'' u 0 None w) @ [Sleep 5]) = Some y"
      by (auto simp: pollAgain_def terminal_def split: prod.splits sum.splits option.splits if_splits)
    from 1(1) [OF this] es show ?thesis by auto
  qed
qed

lemma run_extends:
  assumes "runOnJobQueue cfg srv params w = Some (out, p, v)"
  shows "\<exists>es. v = w @ es"
proof -
  let ?p = "AList.update ''runOnJobQueue'' (JBool True) params"
  let ?w0 = "w @ [LogInfo ''Starting job on queue'']"
  obtain res w1 where f: "fetch cfg srv ''POST'' (queryEndpoint cfg) 0 (Some (JObj ?p)) ?w0 = (res, w1)"
    by (cases "fetch cfg srv ''POST'' (queryEndpoint cfg) 0 (Some (JObj ?p)) ?w0")
  obtain es1 where e1: "w1 = w @ es1"
    using fetch_extends [of cfg srv "''POST''" "queryEndpoint cfg" 0 "Some (JObj ?p)" ?w0] f
    by auto
  show ?thesis
  proof (cases res)
    case (Inl e)
    with assms f e1 show ?thesis
      by (auto simp: runOnJobQueue_def queryEndpoint_def Let_def)
  next
    case (Inr r)
    show ?thesis
    proof (cases "json_of r")
      case None
      with Inr assms f e1 show ?thesis
        by (auto simp: runOnJobQueue_def queryEndpoint_def Let_def)
    next
      case (Some j)
      show ?thesis
      proof (cases "subscript j ''id''")
        case (Inl e)
        with Some Inr assms f e1 show ?thesis
          by (auto simp: runOnJobQueue_def queryEndpoint_def Let_def)
      next
        case (Inr jobId)
        note run = run_after_submit [OF f [unfolded \<open>res = Inr r\<close>] Some Inr]
        show ?thesis
        proof (cases "poll cfg srv (Format (statusUrl cfg) jobId) w1")
          case None
          with run assms show ?thesis by simp
        next
          case (Some y)
          obtain pr w2 where y: "y = (pr, w2)" by (cases y)
          from poll_extends [OF Some] y e1 obtain es2 where e2: "w2 = w @ es2" by auto
          show ?thesis
          proof (cases pr)
            case (Inl e)
            with run assms Some y e2 show ?thesis by auto
          next
            case (Inr b)
            with run assms Some y
            have "v = snd (fetch cfg srv ''GET'' (Format (resultUrl cfg) jobId) 0 None w2)"
              by simp
            with e2 fetch_extends [of cfg srv "''GET''" "Format (resultUrl cfg) jobId" 0 None w2]
            show ?thesis by auto
          qed
        qed
      qed
    qed
  qed
qed

lemma query_result:
  assumes "query cfg srv params body w = Some (out, p, v)"
  shows "p = (if escalates cfg srv params body w
              then AList.update ''runOnJobQueue'' (JBool True) params else params)
       \<and> (\<exists>es. v = w @ Request ''POST'' (queryEndpoint cfg) (Some (JObj params)) # es)"
proof -
  obtain res w' where f: "fetch cfg srv ''POST'' (queryEndpoint cfg) 0 (Some (JObj params)) w = (res, w')"
    by (cases "fetch cfg srv ''POST'' (queryEndpoint cfg) 0 (Some (JObj params)) w")
  obtain es where es: "w' = w @ Request ''POST'' (queryEndpoint cfg) (Some (JObj params)) # es"
    using fetch_trace [of cfg srv "''POST''" "queryEndpoint cfg" 0 "Some (JObj params)" w] f
    by auto
  show ?thesis
  proof (cases "escalates cfg srv params body w")
    case True
    with assms obtain out' where run: "runOnJobQueue cfg srv params w' = Some (out', p, v)"
      by (auto simp: query_cases [OF f] split: option.splits prod.splits sum.splits)
    from run_extends [OF run] es obtain es' where
      "v = w @ Request ''POST'' (queryEndpoint cfg) (Some (JObj params)) # es'" by auto
    with run_result [OF run] True show ?thesis by simp
  next
    case False
    with assms f es show ?thesis by (auto simp: query_cases [OF f])
  qed
qed

lemma escalates_asProtobuf:
  "escalates cfg srv params
       (\<lambda>response. case parse (content response) of
                      None \<Rightarrow> Inl ProtobufDecodeError
                    | Some msg \<Rightarrow> Inr msg) w
     \<longleftrightarrow> fst (fetch cfg srv ''POST'' (queryEndpoint cfg) 0 (Some (JObj params)) w)
           = Inl (ApiError (JStr sentinel))"
  by (auto simp: escalates_def split: sum.splits option.splits)

text \<open>
  C10. The dictionary the caller holds after the call. After a \<open>query\<close> that escalated
  it is \<open>params\<close> with \<open>runOnJobQueue\<close> set to \<open>True\<close>, and \<open>params\<close> itself otherwise.
  After \<open>asProtobuf\<close>, whether it returns a message or an error, it has \<open>format\<close> set to
  \<open>protobuf\<close>, and \<open>runOnJobQueue\<close> set to \<open>True\<close> when the query escalated; the first
  request of the call already carries \<open>format\<close>.
\<close>

theorem params_mutated_in_place:
  "(query cfg srv params body w = Some (out, p, v) \<longrightarrow>
      p = (if escalates cfg srv params body w
           then AList.update ''runOnJobQueue'' (JBool True) params else params))
   \<and> (asProtobuf parse cfg srv params w = Some (out', p', v') \<longrightarrow>
        map_of p' ''format'' = Some (JStr ''protobuf'')
      \<and> (fst (fetch cfg srv ''POST'' (queryEndpoint cfg) 0
                 (Some (JObj (AList.update ''format'' (JStr ''protobuf'') params))) w)
            = Inl (ApiError (JStr sentinel))
          \<longrightarrow> p' = AList.update ''runOnJobQueue'' (JBool True)
                     (AList.update ''format'' (JStr ''protobuf'') params)
            \<and> map_of p' ''runOnJobQueue'' = Some (JBool True))
      \<and> (fst (fetch cfg srv ''POST'' (queryEndpoint cfg) 0
                 (Some (JObj (AList.update ''format'' (JStr ''protobuf'') params))) w)
            \<noteq> Inl (ApiError (JStr sentinel))
          \<longrightarrow> p' = AList.update ''format'' (JStr ''protobuf'') params)
      \<and> (\<exists>es. v' = w @ Request ''POST'' (queryEndpoint cfg)
                       (Some (JObj (AList.update ''format'' (JStr ''protobuf'') params))) # es))"
proof (intro conjI impI)
  assume "query cfg srv params body w = Some (out, p, v)"
  from query_result [OF this]
  show "p = (if escalates cfg srv params body w
           then AList.update ''runOnJobQueue'' (JBool True) params else params)"
    by simp
next
  let ?pf = "AList.update ''format'' (JStr ''protobuf'') params"
  let ?body = "\<lambda>response. case parse (content response) of
                      None \<Rightarrow> Inl ProtobufDecodeError
                    | Some msg \<Rightarrow> Inr msg"
  let ?esc = "fst (fetch cfg srv ''POST'' (queryEndpoint cfg) 0 (Some (JObj ?pf)) w)
                = Inl (ApiError (JStr sentinel))"
  assume a: "asProtobuf parse cfg srv params w = Some (out', p', v')"
  then have q: "query cfg srv ?pf ?body w = Some (out', p', v')"
    by (simp add: asProtobuf_def Let_def)
  note r = query_result [OF q, unfolded escalates_asProtobuf]
  from r show "map_of p' ''format'' = Some (JStr ''protobuf'')"
    by (simp add: update_conv' split: if_splits)
  from r show "\<exists>es. v' = w @ Request ''POST'' (queryEndpoint cfg) (Some (JObj ?pf)) # es"
    by simp
  { assume ?esc
    with r show "p' = AList.update ''runOnJobQueue'' (JBool True) ?pf" by simp
    then show "map_of p' ''runOnJobQueue'' = Some (JBool True)"
      by (simp add: update_conv') }
  { assume "\<not> ?esc"
    with r show "p' = ?pf" by simp }
qed

theorem params_mutated_in_place_witness:
  "asProtobuf Some (ClientConfig ''key'')
       (script [httpJson 400 [(''error_message'', JStr sentinel)],
                httpJson 400 [(''error_message'', JStr ''Out of memory'')]])
       [(''domain'', JStr ''NEMS'')] []
     = Some (Inl (ApiError (JStr ''Out of memory'')),
             [(''domain'', JStr ''NEMS''), (''format'', JStr ''protobuf''),
              (''runOnJobQueue'', JBool True)],
             [Request ''POST'' (queryEndpoint (ClientConfig ''key''))
                (Some (JObj [(''domain'', JStr ''NEMS''), (''format'', JStr ''protobuf'')])),
              LogInfo ''Starting job on queue'',
              Request ''POST'' (queryEndpoint (ClientConfig ''key''))
                (Some (JObj [(''domain'', JStr ''NEMS''), (''format'', JStr ''protobuf''),
                             (''runOnJobQueue'', JBool True)]))])
   \<and> map_of [(''domain'', JStr ''NEMS''), (''format'', JStr ''protobuf''),
              (''runOnJobQueue'', JBool True)] ''format'' = Some (JStr ''protobuf'')
   \<and> map_of [(''domain'', JStr ''NEMS''), (''format'', JStr ''protobuf''),
              (''runOnJobQueue'', JBool True)] ''runOnJobQueue'' = Some (JBool True)
   \<and> asProtobuf Some (ClientConfig ''key'') (script [http 200 ''bytes''])
       [(''domain'', JStr ''NEMS'')] []
     = Some (Inr ''bytes'',
             [(''domain'', JStr ''NEMS''), (''format'', JStr ''protobuf'')],
             [Request ''POST'' (queryEndpoint (ClientConfig ''key''))
                (Some (JObj [(''domain'', JStr ''NEMS''), (''format'', JStr ''protobuf'')]))])
   \<and> query (ClientConfig ''key'')
       (script [httpJson 400 [(''error_message'', JStr sentinel)],
                httpJson 400 [(''error_message'', JStr ''Out of memory'')]])
       [(''domain'', JStr ''NEMS''), (''format'', JStr ''protobuf'')]
       (Inr :: response \<Rightarrow> error + response) []
     = Some (Inl (ApiError (JStr ''Out of memory'')),
             AList.update ''runOnJobQueue'' (JBool True)
               [(''domain'', JStr ''NEMS''), (''format'', JStr ''protobuf'')],
             [Request ''POST'' (queryEndpoint (ClientConfig ''key''))
                (Some (JObj [(''domain'', JStr ''NEMS''), (''format'', JStr ''protobuf'')])),
              LogInfo ''Starting job on queue'',
              Request ''POST'' (queryEndpoint (ClientConfig ''key''))
                (Some (JObj [(''domain'', JStr ''NEMS''), (''format'', JStr ''protobuf''),
                             (''runOnJobQueue'', JBool True)]))])"
proof -
  let ?cfg = "ClientConfig ''key''"
  let ?srv = "script [httpJson 400 [(''error_message'', JStr sentinel)],
                      httpJson 400 [(''error_message'', JStr ''Out of memory'')]]"
  let ?pf = "[(''domain'', JStr ''NEMS''), (''format'', JStr ''protobuf'')]"
  let ?p = "[(''domain'', JStr ''NEMS''), (''format'', JStr ''protobuf''),
             (''runOnJobQueue'', JBool True)]"
  let ?post = "Request ''POST'' (queryEndpoint ?cfg) (Some (JObj ?pf))"
  let ?v = "[?post, LogInfo ''Starting job on queue'',
             Request ''POST'' (queryEndpoint ?cfg) (Some (JObj ?p))]"
  have f: "fetch ?cfg ?srv ''POST'' (queryEndpoint ?cfg) 0
             (Some (JObj (AList.update ''format'' (JStr ''protobuf'') [(''domain'', JStr ''NEMS'')]))) []
           = (Inl (ApiError (JStr sentinel)), [?post])"
    by (simp add: fetch.simps script_def httpJson_def)
  then have f': "fetch ?cfg ?srv ''POST'' (queryEndpoint ?cfg) 0 (Some (JObj ?pf)) []
           = (Inl (ApiError (JStr sentinel)), [?post])"
    by simp
  have run: "runOnJobQueue ?cfg ?srv ?pf [?post]
           = Some (Inl (ApiError (JStr ''Out of memory'')), ?p, ?v)"
    by (simp add: runOnJobQueue_def queryEndpoint_def fetch.simps script_def httpJson_def Let_def)
  have q: "query ?cfg ?srv ?pf body [] = Some (Inl (ApiError (JStr ''Out of memory'')), ?p, ?v)"
    for body :: "response \<Rightarrow> error + 'b"
    using run by (simp add: query_cases [OF f'] escalates_def f')
  have a: "asProtobuf Some ?cfg ?srv [(''domain'', JStr ''NEMS'')] []
           = Some (Inl (ApiError (JStr ''Out of memory'')), ?p, ?v)"
    by (simp add: asProtobuf_def q)
  let ?ok = "script [http 200 ''bytes'']"
  have g: "fetch ?cfg ?ok ''POST'' (queryEndpoint ?cfg) 0
             (Some (JObj (AList.update ''format'' (JStr ''protobuf'') [(''domain'', JStr ''NEMS'')]))) []
           = (Inr \<lparr>status = 200, content = ''bytes'', json_of = None\<rparr>, [?post])"
    by (simp add: fetch.simps script_def http_def)
  then have g': "fetch ?cfg ?ok ''POST'' (queryEndpoint ?cfg) 0 (Some (JObj ?pf)) []
           = (Inr \<lparr>status = 200, content = ''bytes'', json_of = None\<rparr>, [?post])"
    by simp
  have b: "asProtobuf Some ?cfg ?ok [(''domain'', JStr ''NEMS'')] []
           = Some (Inr ''bytes'', ?pf, [?post])"
    by (simp add: asProtobuf_def query_cases [OF g'] escalates_def g')
  from a f
    params_mutated_in_place [where parse = Some and cfg = ?cfg and srv = ?srv
      and params = "[(''domain'', JStr ''NEMS'')]" and w = "[]"
      and out' = "Inl (ApiError (JStr ''Out of memory''))" and p' = ?p and v' = ?v,
      THEN conjunct2]
  have c1: "map_of ?p ''format'' = Some (JStr ''protobuf'')
       \<and> map_of ?p ''runOnJobQueue'' = Some (JBool True)"
    by simp
  from b g
    params_mutated_in_place [where parse = Some and cfg = ?cfg and srv = ?ok
      and params = "[(''domain'', JStr ''NEMS'')]" and w = "[]"
      and out' = "Inr ''bytes''" and p' = ?pf and v' = "[?post]", THEN conjunct2]
  have c2: "AList.update ''format'' (JStr ''protobuf'') [(''domain'', JStr ''NEMS'')] = ?pf"
    by simp
  from q [of "Inr :: response \<Rightarrow> error + response"] f'
    params_mutated_in_place [where cfg = ?cfg and srv = ?srv and params = ?pf and w = "[]"
      and body = "Inr :: response \<Rightarrow> error + response"
      and out = "Inl (ApiError (JStr ''Out of memory''))" and p = ?p and v = ?v,
      THEN conjunct1]
  have c3: "AList.update ''runOnJobQueue'' (JBool True) ?pf = ?p"
    by (simp add: escalates_def)
  from a b q [of "Inr :: response \<Rightarrow> error + response"] c1 c2 c3 show ?thesis by simp
qed

end
